theory Spec2Isabelle
  imports Complex_Main "HOL-Library.Word"
begin

section \<open>JavaScript values and strings\<close>

text \<open>
  The server is a single Node.js module, \<^verbatim>\<open>index.js\<close>. This theory embeds its document
  pipeline: the helper \<^verbatim>\<open>chunkText\<close>, the body of the \<^verbatim>\<open>get_document\<close> tool (format
  dispatch, text extraction, the four access modes), the control flow of the three
  pass-through tools, and the catch-all of the \<^verbatim>\<open>CallToolRequestSchema\<close> handler.

  Modelling conventions.
  \<^item> A JavaScript string is a sequence of UTF-16 code units and \<^verbatim>\<open>length\<close> counts code
    units. The model is \<^typ>\<open>string\<close>: a list of code units, taken from the 8-bit range
    (Latin-1), on which \<^verbatim>\<open>trim\<close> and \<^verbatim>\<open>toLowerCase\<close> are written out below.
  \<^item> A finite JavaScript number is a rational number. The type of values \<open>'n jsval\<close> takes
    the type \<open>'n\<close> of its numbers as a parameter. The numbers of a payload and of
    \<^verbatim>\<open>chunk_index\<close> are of type \<^typ>\<open>rat\<close>: the code only compares a chunk index, uses
    it as a property key and prints it, so a fraction is modelled as exactly as an
    integer. (The input schema declares \<^verbatim>\<open>chunk_index\<close> and \<^verbatim>\<open>max_chars\<close> as
    \<^verbatim>\<open>integer\<close>, but the code accepts whatever passes its \<^verbatim>\<open>typeof\<close> test.) The numbers
    of \<^verbatim>\<open>max_chars\<close> are of type \<^typ>\<open>int\<close>: \<^verbatim>\<open>chunkText\<close> adds the budget to a counter,
    which is exact on integers below \<open>2^53\<close> and floating-point arithmetic on
    fractions. String lengths are integers. \<^verbatim>\<open>NaN\<close> and the infinities are outside the
    model.
  \<^item> A thrown \<^verbatim>\<open>Error\<close> is a value \<open>Inl (Error message)\<close> of a sum type.
  \<^item> The record \<open>env\<close> holds what the model takes from outside: the HTTP download,
    \<^verbatim>\<open>pdf-parse\<close>, \<^verbatim>\<open>mammoth\<close>, \<^verbatim>\<open>Buffer.toString\<close>, the upstream JSON of the three
    pass-through tools with its reshaping, and the helper
    \<^verbatim>\<open>extractFilenameFromDisposition\<close> (a regular expression and
    \<^verbatim>\<open>decodeURIComponent\<close>, which may throw).
  \<^item> The module's only mutable variable, \<^verbatim>\<open>PDFParseClass\<close>, is the record \<open>server_state\<close>,
    passed to and returned by every function that can reach it.
  \<^item> A loop that the source does not bound is a \<^theory_text>\<open>partial_function\<close> into
    \<^typ>\<open>'a option\<close>; \<open>None\<close> means that the loop does not return.
\<close>

text \<open>A template literal that interpolates numbers is kept as its pieces, the literal
  text and the numbers, in their order; its value is a string (see \<open>template_string\<close>
  below). A template literal that interpolates only strings is their concatenation.\<close>

datatype 'n piece = Lit string | Num 'n

datatype 'n jsval =
  JUndefined | JNull | JBool bool | JNum 'n | JStr string | JTemplate "'n piece list"
  | JArr "'n jsval list" | JObj "(string \<times> 'n jsval) list"

fun typeof :: "'n jsval \<Rightarrow> string" where
  "typeof JUndefined = ''undefined''"
| "typeof JNull = ''object''"
| "typeof (JBool b) = ''boolean''"
| "typeof (JNum n) = ''number''"
| "typeof (JStr s) = ''string''"
| "typeof (JTemplate ps) = ''string''"
| "typeof (JArr xs) = ''object''"
| "typeof (JObj kvs) = ''object''"

text \<open>An object literal, in the order of its properties. Reading an absent property gives
  \<^verbatim>\<open>undefined\<close>; \<^verbatim>\<open>JSON.stringify\<close> leaves out a property whose value is \<^verbatim>\<open>undefined\<close>.\<close>

type_synonym json_object = "(string \<times> rat jsval) list"

definition field :: "json_object \<Rightarrow> string \<Rightarrow> rat jsval" where
  "field obj k = (case map_of obj k of None \<Rightarrow> JUndefined | Some v \<Rightarrow> v)"

datatype exn = Error string

fun message :: "exn \<Rightarrow> string" where
  "message (Error m) = m"

abbreviation NL :: char where
  "NL \<equiv> CHR 0x0A"

text \<open>\<^verbatim>\<open>s.startsWith(p)\<close>, \<^verbatim>\<open>s.endsWith(p)\<close>, \<^verbatim>\<open>s.includes(q)\<close>.\<close>

definition startsWith :: "string \<Rightarrow> string \<Rightarrow> bool" where
  "startsWith s p = (take (length p) s = p)"

definition endsWith :: "string \<Rightarrow> string \<Rightarrow> bool" where
  "endsWith s p = (length p \<le> length s \<and> drop (length s - length p) s = p)"

fun includes_str :: "string \<Rightarrow> string \<Rightarrow> bool" where
  "includes_str [] q = (q = [])"
| "includes_str (c # cs) q = (startsWith (c # cs) q \<or> includes_str cs q)"

text \<open>\<^verbatim>\<open>toLowerCase\<close> on the 8-bit range: \<open>A\<close>--\<open>Z\<close>, and the Latin-1 capitals
  \<open>0xC0\<close>--\<open>0xDE\<close> without the multiplication sign \<open>0xD7\<close>, move up by 32. In these
  ranges the bit of value 32 is clear, so that adding 32 is setting it.\<close>

definition lower_unit :: "char \<Rightarrow> char" where
  "lower_unit c =
     (let n = (of_char c :: nat)
      in if (65 \<le> n \<and> n \<le> 90) \<or> (192 \<le> n \<and> n \<le> 214) \<or> (216 \<le> n \<and> n \<le> 222)
         then (case c of Char b0 b1 b2 b3 b4 b5 b6 b7 \<Rightarrow> Char b0 b1 b2 b3 b4 True b6 b7)
         else c)"

definition toLowerCase :: "string \<Rightarrow> string" where
  "toLowerCase s = map lower_unit s"

text \<open>\<^verbatim>\<open>trim\<close> removes white space and line terminators from both ends; in the 8-bit
  range these are TAB, LF, VT, FF, CR, SP and NBSP.\<close>

definition is_space :: "char \<Rightarrow> bool" where
  "is_space c = ((of_char c :: nat) \<in> {9, 10, 11, 12, 13, 32, 160})"

definition trim :: "string \<Rightarrow> string" where
  "trim s = rev (dropWhile is_space (rev (dropWhile is_space s)))"

text \<open>\<^verbatim>\<open>s.slice(start, end)\<close>: a negative index counts from the end, both are clamped to
  the string, and an empty span gives the empty string.\<close>

definition slice :: "string \<Rightarrow> int \<Rightarrow> int \<Rightarrow> string" where
  "slice s start end =
     (let len = int (length s);
          from = (if start < 0 then max (len + start) 0 else min start len);
          to = (if end < 0 then max (len + end) 0 else min end len)
      in take (nat (to - from)) (drop (nat from) s))"

text \<open>\<^verbatim>\<open>xs.join(sep)\<close> on an array of strings.\<close>

fun join :: "string \<Rightarrow> string list \<Rightarrow> string" where
  "join sep [] = []"
| "join sep [x] = x"
| "join sep (x # y # ys) = x @ sep @ join sep (y # ys)"

text \<open>\<^verbatim>\<open>s.split(/\n{2,}/)\<close>: the separators are the maximal runs of two or more line
  feeds; a single line feed stays inside its paragraph. \<open>cur\<close> is the paragraph read so
  far.\<close>

function split_from :: "string \<Rightarrow> string \<Rightarrow> string list" where
  "split_from cur [] = [cur]"
| "split_from cur (c # cs) =
     (if c = NL \<and> cs \<noteq> [] \<and> hd cs = NL
      then cur # split_from [] (dropWhile (\<lambda>x. x = NL) cs)
      else split_from (cur @ [c]) cs)"
  by pat_completeness auto
termination
  by (relation "measure (\<lambda>(cur, s). length s)")
     (auto simp: length_dropWhile_le less_Suc_eq_le)

definition split_paragraphs :: "string \<Rightarrow> string list" where
  "split_paragraphs s = split_from [] s"

text \<open>The decimal digits of an integer, with a sign when negative.\<close>

definition digit :: "nat \<Rightarrow> char" where
  "digit n = ''0123456789'' ! n"

fun show_nat :: "nat \<Rightarrow> string" where
  "show_nat n = (if n < 10 then [digit n] else show_nat (n div 10) @ [digit (n mod 10)])"

declare show_nat.simps [simp del]

definition show_int :: "int \<Rightarrow> string" where
  "show_int n = (if n < 0 then CHR ''-'' # show_nat (nat (- n)) else show_nat (nat n))"

text \<open>
  A number inside a template literal is printed by \<^verbatim>\<open>Number::toString\<close>. For an integer
  of magnitude below \<open>2^53\<close> that is its decimal digits. For any other number it is the
  shortest decimal that reads back as the same double (\<^verbatim>\<open>2.5\<close> for five halves,
  \<^verbatim>\<open>1e+21\<close>, \<^verbatim>\<open>1152921504606847000\<close> for \<open>2^60\<close>), which depends on the floating-point format: the model
  gives \<open>None\<close> there, and so does the string of a template literal that holds such a
  number.
\<close>

definition is_integer :: "rat \<Rightarrow> bool" where
  "is_integer x = (of_int \<lfloor>x\<rfloor> = x)"



text \<open>\<^verbatim>\<open>Math.round\<close> rounds to the nearest integer, a half upwards.\<close>

definition Math_round :: "rat \<Rightarrow> int" where
  "Math_round x = \<lfloor>x + 1 / 2\<rfloor>"

section \<open>chunkText\<close>

text \<open>
  \<^verbatim>\<open>
  function chunkText(text, maxChars) {
    const chunks = [];
    for (let i = 0; i < text.length; i += maxChars) {
      chunks.push(text.slice(i, i + maxChars));
    }
    return chunks;
  }
  \<close>
  The loop does not return when \<open>maxChars \<le> 0\<close> and the text is not empty.
\<close>

partial_function (option) chunkText_loop ::
  "string \<Rightarrow> int \<Rightarrow> int \<Rightarrow> string list \<Rightarrow> string list option" where
  "chunkText_loop text maxChars i chunks =
     (if i < int (length text)
      then chunkText_loop text maxChars (i + maxChars) (chunks @ [slice text i (i + maxChars)])
      else Some chunks)"

declare chunkText_loop.simps [code]

definition chunkText :: "string \<Rightarrow> int \<Rightarrow> string list option" where
  "chunkText text maxChars = chunkText_loop text maxChars 0 []"

section \<open>The arguments of a tool\<close>

text \<open>The \<^verbatim>\<open>arguments\<close> object of a request, with the properties of the four tools;
  \<open>args_mode\<close> is \<^verbatim>\<open>args.mode\<close>. The string properties are absent or strings, as the
  input schemas declare them; the two numeric properties are any value, since the code
  tests their \<^verbatim>\<open>typeof\<close>: \<^verbatim>\<open>chunk_index\<close> with any finite number, \<^verbatim>\<open>max_chars\<close> with
  the integers.\<close>

record tool_args =
  args_case_number :: "string option"
  args_case_uuid :: "string option"
  args_document_id :: "string option"
  args_document_uuid :: "string option"
  args_mode :: "string option"
  args_chunk_index :: "rat jsval"
  args_max_chars :: "int jsval"
  args_search_query :: "string option"

text \<open>\<^verbatim>\<open>a || b\<close> on strings that may be absent: absent and the empty string are falsy.
  Where the result is only tested for truth or used as a string, the empty string stands
  for every falsy value.\<close>

definition truthy :: "string option \<Rightarrow> bool" where
  "truthy a = (case a of None \<Rightarrow> False | Some s \<Rightarrow> s \<noteq> [])"

definition or_else :: "string option \<Rightarrow> string option \<Rightarrow> string option" where
  "or_else a b = (if truthy a then a else b)"

definition or_default :: "string option \<Rightarrow> string \<Rightarrow> string" where
  "or_default a d = (case a of None \<Rightarrow> d | Some s \<Rightarrow> if s \<noteq> [] then s else d)"

text \<open>\<^verbatim>\<open>const mode = args.mode || 'preview';\<close>\<close>

definition mode_of :: "tool_args \<Rightarrow> string" where
  "mode_of args = or_default (args_mode args) ''preview''"

text \<open>The value of a number; the code reads it only after the \<^verbatim>\<open>typeof\<close> test.\<close>

fun number_of :: "('n :: zero) jsval \<Rightarrow> 'n" where
  "number_of (JNum n) = n"
| "number_of v = 0"

text \<open>
  \<^verbatim>\<open>
  const maxChars = typeof args.max_chars === 'number' && args.max_chars > 0
    ? args.max_chars
    : 8000;
  \<close>
\<close>

definition maxChars_of :: "tool_args \<Rightarrow> int" where
  "maxChars_of args =
     (if typeof (args_max_chars args) = ''number'' \<and> number_of (args_max_chars args) > 0
      then number_of (args_max_chars args)
      else 8000)"

text \<open>\<^verbatim>\<open>const idx = typeof args.chunk_index === 'number' ? args.chunk_index : 0;\<close>\<close>

definition idx_of :: "tool_args \<Rightarrow> rat" where
  "idx_of args =
     (if typeof (args_chunk_index args) = ''number'' then number_of (args_chunk_index args) else 0)"

text \<open>\<^verbatim>\<open>const q = (args.search_query || '').trim().toLowerCase();\<close>\<close>

definition q_of :: "tool_args \<Rightarrow> string" where
  "q_of args = toLowerCase (trim (or_default (args_search_query args) []))"

section \<open>The search loop\<close>

text \<open>
  \<^verbatim>\<open>
  const paragraphs = fullText.split(/\n{2,}/);
  const matches = [];
  let accumulated = '';
  for (let i = 0; i < paragraphs.length; i++) {
    if (paragraphs[i].toLowerCase().includes(q)) {
      const context = [];
      if (i > 0) context.push(paragraphs[i - 1]);
      context.push(paragraphs[i]);
      if (i < paragraphs.length - 1) context.push(paragraphs[i + 1]);
      for (const p of context) {
        if (accumulated.length + p.length + 2 > maxChars) {
          break;
        }
        matches.push(p);
        accumulated += p + '\n\n';
      }
    }
    if (accumulated.length >= maxChars) {
      break;
    }
  }
  \<close>
  The state of the loops is the pair \<open>(matches, accumulated)\<close>.
\<close>

type_synonym search_state = "string list \<times> string"

definition context_of :: "string list \<Rightarrow> nat \<Rightarrow> string list" where
  "context_of paragraphs i =
     (if i > 0 then [paragraphs ! (i - 1)] else [])
     @ [paragraphs ! i]
     @ (if int i < int (length paragraphs) - 1 then [paragraphs ! (i + 1)] else [])"

text \<open>The inner loop: its \<^verbatim>\<open>break\<close> leaves the rest of \<open>context\<close> out.\<close>

fun push_context :: "int \<Rightarrow> string list \<Rightarrow> search_state \<Rightarrow> search_state" where
  "push_context maxChars [] st = st"
| "push_context maxChars (p # ps) (matches, accumulated) =
     (if int (length accumulated) + int (length p) + 2 > maxChars
      then (matches, accumulated)
      else push_context maxChars ps (matches @ [p], accumulated @ p @ [NL, NL]))"

text \<open>The body of the outer loop up to its closing \<^verbatim>\<open>if\<close>.\<close>

definition visit :: "string list \<Rightarrow> string \<Rightarrow> int \<Rightarrow> nat \<Rightarrow> search_state \<Rightarrow> search_state" where
  "visit paragraphs q maxChars i st =
     (if includes_str (toLowerCase (paragraphs ! i)) q
      then push_context maxChars (context_of paragraphs i) st
      else st)"

function search_loop ::
  "string list \<Rightarrow> string \<Rightarrow> int \<Rightarrow> nat \<Rightarrow> search_state \<Rightarrow> search_state" where
  "search_loop paragraphs q maxChars i st =
     (if i < length paragraphs
      then (if int (length (snd (visit paragraphs q maxChars i st))) \<ge> maxChars
            then visit paragraphs q maxChars i st
            else search_loop paragraphs q maxChars (Suc i) (visit paragraphs q maxChars i st))
      else st)"
  by pat_completeness auto
termination
  by (relation "measure (\<lambda>(paragraphs, q, maxChars, i, st). length paragraphs - i)") auto

declare search_loop.simps [simp del]

definition search_matches :: "string \<Rightarrow> string \<Rightarrow> int \<Rightarrow> string list" where
  "search_matches fullText q maxChars =
     fst (search_loop (split_paragraphs fullText) q maxChars 0 ([], []))"

section \<open>The payloads of get_document\<close>

text \<open>Each definition is one object literal handed to \<^verbatim>\<open>JSON.stringify\<close>, with its
  properties in the order of the source.\<close>

text \<open>\<^verbatim>\<open>chunks[i]\<close>: the property of the array whose key is the number \<open>i\<close> printed. The
  array has such a property when \<open>i\<close> is an integer from 0 to \<open>length - 1\<close>; for any
  other number, a fraction too, the value is \<^verbatim>\<open>undefined\<close>.\<close>

definition at_index :: "string list \<Rightarrow> rat \<Rightarrow> rat jsval" where
  "at_index xs i =
     (if is_integer i \<and> 0 \<le> i \<and> i < of_nat (length xs) then JStr (xs ! nat \<lfloor>i\<rfloor>) else JUndefined)"

definition image_failure :: "string \<Rightarrow> string \<Rightarrow> nat \<Rightarrow> json_object" where
  "image_failure identifier mimeType size_bytes =
     [(''success'', JBool False),
      (''document_identifier'', JStr identifier),
      (''mime_type'', JStr mimeType),
      (''error'', JStr ''Image document - OCR not available''),
      (''suggestion'', JStr ''This is an image file. To read text from images, OCR (Optical Character Recognition) would be needed. Please ask the user to describe the image content or provide it in text format.''),
      (''size_bytes'', JNum (of_nat size_bytes))]"

definition unsupported_format_failure :: "string \<Rightarrow> string \<Rightarrow> nat \<Rightarrow> json_object" where
  "unsupported_format_failure identifier mimeType size_bytes =
     [(''success'', JBool False),
      (''document_identifier'', JStr identifier),
      (''mime_type'', JStr mimeType),
      (''error'', JStr ''Unsupported document format for text extraction''),
      (''suggestion'', JStr (''This document type ('' @ mimeType @ '') cannot be read directly. Supported formats: PDF, plain text. Please ask the user if they can provide the document in a supported format.'')),
      (''size_bytes'', JNum (of_nat size_bytes))]"

definition no_text_failure :: "string \<Rightarrow> string \<Rightarrow> json_object" where
  "no_text_failure identifier mode =
     [(''success'', JBool False),
      (''document_identifier'', JStr identifier),
      (''mode'', JStr mode),
      (''error'', JStr ''No text content could be extracted from this document.'')]"

definition size_guard_failure :: "string \<Rightarrow> int \<Rightarrow> json_object" where
  \<open>size_guard_failure identifier ESTIMATED_TOKENS =
     [(''success'', JBool False),
      (''document_identifier'', JStr identifier),
      (''mode'', JStr ''full''),
      (''error'', JStr ''Document too large for full retrieval in a single call.''),
      (''estimated_tokens'', JNum (of_int ESTIMATED_TOKENS)),
      (''suggestion'', JStr ''Call get_document with mode="preview", "chunk", or "search" instead.'')]\<close>

definition preview_payload :: "string \<Rightarrow> nat \<Rightarrow> int \<Rightarrow> string list \<Rightarrow> json_object" where
  \<open>preview_payload identifier totalLength ESTIMATED_TOKENS chunks =
     [(''success'', JBool True),
      (''document_identifier'', JStr identifier),
      (''mode'', JStr ''preview''),
      (''total_length'', JNum (of_nat totalLength)),
      (''estimated_tokens'', JNum (of_int ESTIMATED_TOKENS)),
      (''approx_chunks'', JNum (of_nat (length chunks))),
      (''chunk_index'', JNum 0),
      (''text'', at_index chunks 0),
      (''note'', JStr ''To retrieve more content, call get_document with mode="chunk" and a chunk_index between 0 and approx_chunks - 1.'')]\<close>

text \<open>\<^verbatim>\<open>error: `chunk_index ${idx} out of range (0-${chunks.length - 1})`\<close>\<close>

definition chunk_range_failure :: "string \<Rightarrow> rat \<Rightarrow> nat \<Rightarrow> string list \<Rightarrow> json_object" where
  "chunk_range_failure identifier idx totalLength chunks =
     [(''success'', JBool False),
      (''document_identifier'', JStr identifier),
      (''mode'', JStr ''chunk''),
      (''error'', JTemplate [Lit ''chunk_index '', Num idx, Lit '' out of range (0-'',
                             Num (of_nat (length chunks) - 1), Lit '')'']),
      (''total_length'', JNum (of_nat totalLength)),
      (''approx_chunks'', JNum (of_nat (length chunks)))]"

definition chunk_payload :: "string \<Rightarrow> nat \<Rightarrow> int \<Rightarrow> string list \<Rightarrow> rat \<Rightarrow> json_object" where
  "chunk_payload identifier totalLength ESTIMATED_TOKENS chunks idx =
     [(''success'', JBool True),
      (''document_identifier'', JStr identifier),
      (''mode'', JStr ''chunk''),
      (''total_length'', JNum (of_nat totalLength)),
      (''estimated_tokens'', JNum (of_int ESTIMATED_TOKENS)),
      (''approx_chunks'', JNum (of_nat (length chunks))),
      (''chunk_index'', JNum idx),
      (''text'', at_index chunks idx)]"

definition query_required_failure :: "string \<Rightarrow> json_object" where
  \<open>query_required_failure identifier =
     [(''success'', JBool False),
      (''document_identifier'', JStr identifier),
      (''mode'', JStr ''search''),
      (''error'', JStr ''search_query is required when mode is "search".'')]\<close>

definition search_payload :: "string \<Rightarrow> string \<Rightarrow> nat \<Rightarrow> int \<Rightarrow> string list \<Rightarrow> json_object" where
  "search_payload identifier q totalLength ESTIMATED_TOKENS matches =
     [(''success'', JBool True),
      (''document_identifier'', JStr identifier),
      (''mode'', JStr ''search''),
      (''query'', JStr q),
      (''total_length'', JNum (of_nat totalLength)),
      (''estimated_tokens'', JNum (of_int ESTIMATED_TOKENS)),
      (''snippet_count'', JNum (of_nat (length matches))),
      (''text'', JStr (join [NL, NL] matches))]"

definition full_payload :: "string \<Rightarrow> nat \<Rightarrow> int \<Rightarrow> int \<Rightarrow> string \<Rightarrow> json_object" where
  "full_payload identifier totalLength ESTIMATED_TOKENS maxChars fullText =
     [(''success'', JBool True),
      (''document_identifier'', JStr identifier),
      (''mode'', JStr ''full''),
      (''total_length'', JNum (of_nat totalLength)),
      (''estimated_tokens'', JNum (of_int ESTIMATED_TOKENS)),
      (''truncated'', JBool (int totalLength > maxChars)),
      (''text'', JStr (if int totalLength > maxChars then slice fullText 0 maxChars else fullText))]"

definition unsupported_mode_failure :: "string \<Rightarrow> string \<Rightarrow> json_object" where
  \<open>unsupported_mode_failure identifier mode =
     [(''success'', JBool False),
      (''document_identifier'', JStr identifier),
      (''mode'', JStr mode),
      (''error'', JStr (''Unsupported mode "'' @ mode @ ''". Use "preview", "chunk", "search", or "full".''))]\<close>

definition extraction_failure :: "string \<Rightarrow> string \<Rightarrow> exn \<Rightarrow> json_object" where
  "extraction_failure identifier mimeType extractionError =
     [(''success'', JBool False),
      (''document_identifier'', JStr identifier),
      (''mime_type'', JStr mimeType),
      (''error'', JStr (''Failed to extract text: '' @ message extractionError)),
      (''suggestion'', JStr ''The document could not be processed. It may be corrupted or in an unsupported format.'')]"

section \<open>The access modes\<close>

text \<open>
  Lines 657 to 841 of \<^verbatim>\<open>index.js\<close>: what \<^verbatim>\<open>get_document\<close> does with the extracted
  text \<open>fullText\<close>. Each mode is the body of its \<^verbatim>\<open>if (mode === ...)\<close> block.
\<close>

definition chunk_mode ::
  "string \<Rightarrow> tool_args \<Rightarrow> nat \<Rightarrow> int \<Rightarrow> string list \<Rightarrow> json_object" where
  "chunk_mode identifier args totalLength ESTIMATED_TOKENS chunks =
     (let idx = idx_of args
      in if idx < 0 \<or> idx \<ge> of_nat (length chunks)
         then chunk_range_failure identifier idx totalLength chunks
         else chunk_payload identifier totalLength ESTIMATED_TOKENS chunks idx)"

definition search_mode ::
  "string \<Rightarrow> tool_args \<Rightarrow> string \<Rightarrow> nat \<Rightarrow> int \<Rightarrow> int \<Rightarrow> json_object" where
  "search_mode identifier args fullText totalLength ESTIMATED_TOKENS maxChars =
     (let q = q_of args
      in if q = []
         then query_required_failure identifier
         else search_payload identifier q totalLength ESTIMATED_TOKENS
                (search_matches fullText q maxChars))"

text \<open>
  \<^verbatim>\<open>
  const mode = args.mode || 'preview';
  const maxChars = ...;
  if (!fullText || !fullText.trim()) { return <no text>; }
  const totalLength = fullText.length;
  const chunks = chunkText(fullText, maxChars);
  const ESTIMATED_TOKENS = Math.round(totalLength / 4);
  const MAX_FULL_TOKENS = 40000;
  if (mode === 'full' && ESTIMATED_TOKENS > MAX_FULL_TOKENS) { return <too large>; }
  if (mode === 'preview') { ... }
  if (mode === 'chunk') { ... }
  if (mode === 'search') { ... }
  if (mode === 'full') { ... }
  return <unsupported mode>;
  \<close>
  The result is \<open>None\<close> when \<^verbatim>\<open>chunkText\<close> does not return.
\<close>

definition MAX_FULL_TOKENS :: int where
  "MAX_FULL_TOKENS = 40000"

definition estimated_tokens :: "nat \<Rightarrow> int" where
  "estimated_tokens totalLength = Math_round (of_nat totalLength / 4)"

definition access_modes :: "string \<Rightarrow> tool_args \<Rightarrow> string \<Rightarrow> json_object option" where
  "access_modes identifier args fullText =
     (let mode = mode_of args;
          maxChars = maxChars_of args
      in if fullText = [] \<or> trim fullText = []
         then Some (no_text_failure identifier mode)
         else
           let totalLength = length fullText
           in case chunkText fullText maxChars of
                None \<Rightarrow> None
              | Some chunks \<Rightarrow>
                  let ESTIMATED_TOKENS = estimated_tokens totalLength
                  in if mode = ''full'' \<and> ESTIMATED_TOKENS > MAX_FULL_TOKENS
                     then Some (size_guard_failure identifier ESTIMATED_TOKENS)
                     else if mode = ''preview''
                     then Some (preview_payload identifier totalLength ESTIMATED_TOKENS chunks)
                     else if mode = ''chunk''
                     then Some (chunk_mode identifier args totalLength ESTIMATED_TOKENS chunks)
                     else if mode = ''search''
                     then Some (search_mode identifier args fullText totalLength
                                  ESTIMATED_TOKENS maxChars)
                     else if mode = ''full''
                     then Some (full_payload identifier totalLength ESTIMATED_TOKENS
                                  maxChars fullText)
                     else Some (unsupported_mode_failure identifier mode))"

section \<open>The environment and the state of the module\<close>

type_synonym buffer = "8 word list"

text \<open>What \<^verbatim>\<open>callLegalserverAPI(endpoint, queryParams, true)\<close> returns.\<close>

record document_data =
  data_content :: buffer
  data_mimeType :: "string option"
  data_contentDisposition :: "string option"

text \<open>What \<^verbatim>\<open>require('pdf-parse')\<close> exposes as \<^verbatim>\<open>mod.PDFParse || mod.default || mod\<close>:
  whether it is a function, and what \<^verbatim>\<open>new PDFParse({data}).getText()\<close> does on a
  buffer: it throws, or gives a result whose \<^verbatim>\<open>text\<close> is a string or is not.\<close>

record pdf_export =
  is_function :: bool
  getText :: "buffer \<Rightarrow> exn + string option"

text \<open>\<^verbatim>\<open>let PDFParseClass = null;\<close>\<close>

record server_state =
  PDFParseClass :: "pdf_export option"

record env =
  download :: "(string \<times> string) list \<Rightarrow> exn + document_data"
  extractFilenameFromDisposition :: "string option \<Rightarrow> exn + string option"
  require_pdf_parse :: "exn + pdf_export"
  mammoth_extractRawText :: "buffer \<Rightarrow> exn + string"
  toString_utf8 :: "buffer \<Rightarrow> string"
  search_case :: "string \<Rightarrow> exn + json_object option"
  case_info :: "string \<Rightarrow> exn + json_object"
  case_documents :: "string \<Rightarrow> exn + json_object option"

section \<open>Text extraction\<close>

text \<open>
  \<^verbatim>\<open>
  function guessMimeTypeFromName(name) {
    if (!name) return undefined;
    const lower = name.toLowerCase();
    if (lower.endsWith('.pdf')) return 'application/pdf';
    if (lower.endsWith('.docx')) return 'application/vnd.openxmlformats-officedocument.wordprocessingml.document';
    if (lower.endsWith('.doc')) return 'application/msword';
    if (lower.endsWith('.txt')) return 'text/plain';
    if (lower.endsWith('.rtf')) return 'application/rtf';
    return undefined;
  }
  \<close>
\<close>

definition guessMimeTypeFromName :: "string \<Rightarrow> string option" where
  "guessMimeTypeFromName name =
     (if name = [] then None
      else let lower = toLowerCase name
           in if endsWith lower ''.pdf'' then Some ''application/pdf''
              else if endsWith lower ''.docx''
              then Some ''application/vnd.openxmlformats-officedocument.wordprocessingml.document''
              else if endsWith lower ''.doc'' then Some ''application/msword''
              else if endsWith lower ''.txt'' then Some ''text/plain''
              else if endsWith lower ''.rtf'' then Some ''application/rtf''
              else None)"

text \<open>
  \<^verbatim>\<open>
  function getPdfParseClass() {
    if (PDFParseClass) { return PDFParseClass; }
    const mod = require('pdf-parse');
    PDFParseClass = mod.PDFParse || mod.default || mod;
    if (typeof PDFParseClass !== 'function') {
      throw new Error('pdf-parse did not expose a PDFParse class/function as expected');
    }
    return PDFParseClass;
  }
  \<close>
\<close>

definition getPdfParseClass :: "env \<Rightarrow> server_state \<Rightarrow> (exn + pdf_export) \<times> server_state" where
  "getPdfParseClass e s =
     (case PDFParseClass s of
        Some c \<Rightarrow> (Inr c, s)
      | None \<Rightarrow>
          (case require_pdf_parse e of
             Inl err \<Rightarrow> (Inl err, s)
           | Inr c \<Rightarrow>
               let s' = s\<lparr>PDFParseClass := Some c\<rparr>
               in if \<not> is_function c
                  then (Inl (Error ''pdf-parse did not expose a PDFParse class/function as expected''), s')
                  else (Inr c, s')))"

text \<open>The PDF branch, with its own \<^verbatim>\<open>try\<close>: whatever is thrown inside is thrown again
  as \<^verbatim>\<open>Failed to extract PDF text: ...\<close>. A cached export that is not a function makes
  \<^verbatim>\<open>new PDFParse\<close> throw a \<^verbatim>\<open>TypeError\<close>.\<close>

definition pdf_text :: "env \<Rightarrow> server_state \<Rightarrow> buffer \<Rightarrow> (exn + string) \<times> server_state" where
  "pdf_text e s buf =
     (case getPdfParseClass e s of
        (Inl err, s') \<Rightarrow> (Inl (Error (''Failed to extract PDF text: '' @ message err)), s')
      | (Inr c, s') \<Rightarrow>
          if \<not> is_function c
          then (Inl (Error (''Failed to extract PDF text: '' @ ''PDFParse is not a constructor'')), s')
          else (case getText c buf of
                  Inl err \<Rightarrow> (Inl (Error (''Failed to extract PDF text: '' @ message err)), s')
                | Inr None \<Rightarrow> (Inr [], s')
                | Inr (Some t) \<Rightarrow> (Inr t, s')))"

text \<open>The outcome of the format dispatch (lines 591 to 655): the function returns at once
  with a payload, an exception reaches the \<^verbatim>\<open>catch (extractionError)\<close>, or
  \<open>fullText\<close> is set.\<close>

datatype extraction = Returned json_object | Thrown exn | FullText string

definition extract_text ::
  "env \<Rightarrow> server_state \<Rightarrow> document_data \<Rightarrow> string \<Rightarrow> string \<Rightarrow> extraction \<times> server_state" where
  "extract_text e s documentData identifier mimeType =
     (if startsWith mimeType ''image/''
      then (Returned (image_failure identifier mimeType (length (data_content documentData))), s)
      else if startsWith mimeType ''text/'' \<or> includes_str mimeType ''plain''
      then (FullText (toString_utf8 e (data_content documentData)), s)
      else if mimeType = ''application/pdf''
              \<or> endsWith (toLowerCase identifier) ''.pdf''
              \<or> includes_str mimeType ''pdf''
      then (case pdf_text e s (data_content documentData) of
              (Inl err, s') \<Rightarrow> (Thrown err, s')
            | (Inr t, s') \<Rightarrow> (FullText t, s'))
      else if includes_str mimeType ''word'' \<or> includes_str mimeType ''officedocument''
      then (case mammoth_extractRawText e (data_content documentData) of
              Inl err \<Rightarrow> (Thrown err, s)
            | Inr v \<Rightarrow> (FullText v, s))
      else (Returned (unsupported_format_failure identifier mimeType
                        (length (data_content documentData))), s))"

section \<open>The tool and the request handler\<close>

text \<open>What a tool returns: \<^verbatim>\<open>{content: [{type: 'text', text: JSON.stringify(payload, null, 2)}]}\<close>,
  with \<^verbatim>\<open>isError: true\<close> from the catch-all only.\<close>

record tool_result =
  payload :: json_object
  isError :: bool

definition ok_result :: "json_object \<Rightarrow> tool_result" where
  "ok_result p = \<lparr>payload = p, isError = False\<rparr>"

text \<open>The \<^verbatim>\<open>try\<close> block of \<^verbatim>\<open>get_document\<close> (lines 588 to 859) with its
  \<^verbatim>\<open>catch (extractionError)\<close>.\<close>

definition extract_and_serve ::
  "env \<Rightarrow> server_state \<Rightarrow> tool_args \<Rightarrow> document_data \<Rightarrow> string \<Rightarrow> string
     \<Rightarrow> (json_object \<times> server_state) option" where
  "extract_and_serve e s args documentData identifier mimeType =
     (case extract_text e s documentData identifier mimeType of
        (Returned p, s') \<Rightarrow> Some (p, s')
      | (Thrown err, s') \<Rightarrow> Some (extraction_failure identifier mimeType err, s')
      | (FullText fullText, s') \<Rightarrow>
          (case access_modes identifier args fullText of
             None \<Rightarrow> None
           | Some p \<Rightarrow> Some (p, s')))"

text \<open>
  \<^verbatim>\<open>
  const queryParams = {};
  if (document_id) { queryParams.id = document_id; }
  if (document_uuid) { queryParams.unique_id = document_uuid; }
  \<close>
\<close>

definition queryParams_of :: "tool_args \<Rightarrow> (string \<times> string) list" where
  "queryParams_of args =
     (if truthy (args_document_id args) then [(''id'', the (args_document_id args))] else [])
     @ (if truthy (args_document_uuid args) then [(''unique_id'', the (args_document_uuid args))] else [])"

text \<open>
  \<^verbatim>\<open>
  const filename = extractFilenameFromDisposition(documentData.contentDisposition);
  const identifier = filename || document_id || document_uuid;
  const mimeType = documentData.mimeType
    || guessMimeTypeFromName(filename || identifier) || 'application/octet-stream';
  \<close>
\<close>

definition identifier_of :: "string option \<Rightarrow> tool_args \<Rightarrow> string" where
  "identifier_of filename args =
     or_default filename (or_default (args_document_id args)
                            (or_default (args_document_uuid args) []))"

definition mimeType_of :: "document_data \<Rightarrow> string option \<Rightarrow> string \<Rightarrow> string" where
  "mimeType_of documentData filename identifier =
     or_default (or_else (data_mimeType documentData)
                   (guessMimeTypeFromName (or_default filename identifier)))
       ''application/octet-stream''"

text \<open>The body of \<^verbatim>\<open>if (name === 'get_document') { ... }\<close>: an exception that leaves
  it is \<open>Inl\<close>.\<close>

definition get_document ::
  "env \<Rightarrow> server_state \<Rightarrow> tool_args \<Rightarrow> ((exn + tool_result) \<times> server_state) option" where
  "get_document e s args =
     (if \<not> truthy (args_document_id args) \<and> \<not> truthy (args_document_uuid args)
      then Some (Inl (Error ''Either document_id or document_uuid is required''), s)
      else case download e (queryParams_of args) of
             Inl err \<Rightarrow> Some (Inl err, s)
           | Inr documentData \<Rightarrow>
               (case extractFilenameFromDisposition e (data_contentDisposition documentData) of
                  Inl err \<Rightarrow> Some (Inl err, s)
                | Inr filename \<Rightarrow>
                    let identifier = identifier_of filename args;
                        mimeType = mimeType_of documentData filename identifier
                    in case extract_and_serve e s args documentData identifier mimeType of
                         None \<Rightarrow> None
                       | Some (p, s') \<Rightarrow> Some (Inr (ok_result p), s')))"

text \<open>
  The three pass-through tools. Each checks its required argument, calls the upstream
  and reshapes the JSON it gets (either may throw); two of them return a failure payload
  when the upstream has nothing. The upstream call with the reshaping is a function of the
  environment: \<open>search_case\<close> and \<open>case_documents\<close> give \<open>None\<close> where the code takes
  its failure branch (\<^verbatim>\<open>!response.data || response.data.length === 0\<close>, and
  \<^verbatim>\<open>!Array.isArray(documents) || documents.length === 0\<close>), and otherwise the
  properties of the success payload after \<^verbatim>\<open>success: true\<close>.
\<close>

definition no_case_failure :: "string \<Rightarrow> json_object" where
  "no_case_failure case_number =
     [(''success'', JBool False),
      (''error'', JStr (''No case found with case number: '' @ case_number)),
      (''suggestion'', JStr ''Please verify the case number and try again.'')]"

definition no_documents_failure :: json_object where
  "no_documents_failure =
     [(''success'', JBool False),
      (''error'', JStr ''No documents were found for this case.''),
      (''suggestion'', JStr ''Verify the case UUID or ensure documents have been uploaded.'')]"

definition search_case_by_number :: "env \<Rightarrow> tool_args \<Rightarrow> exn + tool_result" where
  "search_case_by_number e args =
     (if \<not> truthy (args_case_number args)
      then Inl (Error ''case_number is required'')
      else case search_case e (the (args_case_number args)) of
             Inl err \<Rightarrow> Inl err
           | Inr None \<Rightarrow> Inr (ok_result (no_case_failure (the (args_case_number args))))
           | Inr (Some properties) \<Rightarrow> Inr (ok_result ((''success'', JBool True) # properties)))"

definition get_case_info :: "env \<Rightarrow> tool_args \<Rightarrow> exn + tool_result" where
  "get_case_info e args =
     (if \<not> truthy (args_case_uuid args)
      then Inl (Error ''case_uuid is required'')
      else case case_info e (the (args_case_uuid args)) of
             Inl err \<Rightarrow> Inl err
           | Inr properties \<Rightarrow> Inr (ok_result ((''success'', JBool True) # properties)))"

definition list_case_documents :: "env \<Rightarrow> tool_args \<Rightarrow> exn + tool_result" where
  "list_case_documents e args =
     (if \<not> truthy (args_case_uuid args)
      then Inl (Error ''case_uuid is required'')
      else case case_documents e (the (args_case_uuid args)) of
             Inl err \<Rightarrow> Inl err
           | Inr None \<Rightarrow> Inr (ok_result no_documents_failure)
           | Inr (Some properties) \<Rightarrow> Inr (ok_result ((''success'', JBool True) # properties)))"

text \<open>
  The handler of \<^verbatim>\<open>CallToolRequestSchema\<close>: one \<^verbatim>\<open>try\<close> around the four tools and
  \<^verbatim>\<open>throw new Error(`Unknown tool: ${name}`)\<close> (\<open>tool_body\<close>), and the catch-all
  (\<open>caught\<close>)
  \<^verbatim>\<open>
  catch (error) {
    return {
      content: [{ type: 'text', text: JSON.stringify({
        error: true, tool: name, message: error.message,
        suggestion: 'Check the parameters and try again. Ensure the case exists and you have proper permissions.'
      }, null, 2) }],
      isError: true,
    };
  }
  \<close>
\<close>

definition tool_body ::
  "env \<Rightarrow> server_state \<Rightarrow> string \<Rightarrow> tool_args \<Rightarrow> ((exn + tool_result) \<times> server_state) option" where
  "tool_body e s name args =
     (if name = ''search_case_by_number'' then Some (search_case_by_number e args, s)
      else if name = ''get_case_info'' then Some (get_case_info e args, s)
      else if name = ''list_case_documents'' then Some (list_case_documents e args, s)
      else if name = ''get_document'' then get_document e s args
      else Some (Inl (Error (''Unknown tool: '' @ name)), s))"

definition caught :: "string \<Rightarrow> exn \<Rightarrow> tool_result" where
  "caught name error =
     \<lparr>payload =
        [(''error'', JBool True),
         (''tool'', JStr name),
         (''message'', JStr (message error)),
         (''suggestion'', JStr ''Check the parameters and try again. Ensure the case exists and you have proper permissions.'')],
      isError = True\<rparr>"

definition call_tool ::
  "env \<Rightarrow> server_state \<Rightarrow> string \<Rightarrow> tool_args \<Rightarrow> (tool_result \<times> server_state) option" where
  "call_tool e s name args =
     (case tool_body e s name args of
        None \<Rightarrow> None
      | Some (Inl error, s') \<Rightarrow> Some (caught name error, s')
      | Some (Inr result, s') \<Rightarrow> Some (result, s'))"

section \<open>Closed forms and invariants\<close>

text \<open>What the proofs below are stated with; none of it is code of the server.\<close>

text \<open>The number of chunks, the \<open>k\<close>-th chunk, and the chunks that \<^verbatim>\<open>chunkText\<close>
  returns for a positive budget.\<close>

definition chunk_count :: "nat \<Rightarrow> nat \<Rightarrow> nat" where
  "chunk_count len b = (len + b - 1) div b"

definition chunk_at :: "string \<Rightarrow> nat \<Rightarrow> nat \<Rightarrow> string" where
  "chunk_at T b k = take b (drop (k * b) T)"

definition chunks_of :: "string \<Rightarrow> int \<Rightarrow> string list" where
  "chunks_of T B = map (chunk_at T (nat B)) [0 ..< chunk_count (length T) (nat B)]"

text \<open>The invariant of the search loops: \<open>accumulated\<close> is every match followed by
  two line feeds, and it is within the budget.\<close>

definition separated :: "string list \<Rightarrow> string" where
  "separated ms = concat (map (\<lambda>p. p @ [NL, NL]) ms)"

definition within_budget :: "int \<Rightarrow> search_state \<Rightarrow> bool" where
  "within_budget maxChars st =
     (snd st = separated (fst st) \<and> int (length (separated (fst st))) \<le> maxChars)"

text \<open>Whether a payload carries a string under a key.\<close>

definition carries_string :: "json_object \<Rightarrow> string \<Rightarrow> bool" where
  "carries_string p k =
     (case field p k of JStr t \<Rightarrow> True | JTemplate ps \<Rightarrow> True | _ \<Rightarrow> False)"

section \<open>Example inputs\<close>

text \<open>A request that names a document by its UUID and leaves every option out.\<close>

definition args0 :: tool_args where
  "args0 = \<lparr>args_case_number = None, args_case_uuid = None,
             args_document_id = None, args_document_uuid = Some ''doc-1'', args_mode = None,
             args_chunk_index = JUndefined, args_max_chars = JUndefined,
             args_search_query = None\<rparr>"

text \<open>An environment for the examples: the upstream serves a PDF as
  \<^verbatim>\<open>application/octet-stream\<close> under the file name \<^verbatim>\<open>A.PDF\<close>, \<^verbatim>\<open>pdf-parse\<close> reads
  its text, \<^verbatim>\<open>mammoth\<close> rejects it, and the upstream knows no case.\<close>

definition pdf0 :: pdf_export where
  "pdf0 = \<lparr>is_function = True, getText = (\<lambda>buf. Inr (Some ''Notice to quit''))\<rparr>"

definition data0 :: document_data where
  \<open>data0 = \<lparr>data_content = [37, 80, 68, 70],
             data_mimeType = Some ''application/octet-stream'',
             data_contentDisposition = Some ''attachment; filename="A.PDF"''\<rparr>\<close>

definition env0 :: env where
  "env0 = \<lparr>download = (\<lambda>queryParams. Inr data0),
            extractFilenameFromDisposition = (\<lambda>disposition. Inr (Some ''A.PDF'')),
            require_pdf_parse = Inr pdf0,
            mammoth_extractRawText = (\<lambda>buf. Inl (Error ''Can not find end of central directory'')),
            toString_utf8 = (\<lambda>buf. map (\<lambda>b. char_of (unat b)) buf),
            search_case = (\<lambda>case_number. Inr None),
            case_info = (\<lambda>case_uuid. Inl (Error ''LegalServer API error: 404 Not Found'')),
            case_documents = (\<lambda>case_uuid. Inr None)\<rparr>"

definition s0 :: server_state where
  "s0 = \<lparr>PDFParseClass = None\<rparr>"

text \<open>The same environment with a scanned PDF, in which \<^verbatim>\<open>pdf-parse\<close> finds no
  text.\<close>

definition scanned_pdf :: pdf_export where
  "scanned_pdf = \<lparr>is_function = True, getText = (\<lambda>buf. Inr (Some []))\<rparr>"

definition env_scanned :: env where
  "env_scanned = env0\<lparr>require_pdf_parse := Inr scanned_pdf\<rparr>"

section \<open>The example environment\<close>

lemma pdf_text_env0: "pdf_text env0 s0 buf = (Inr ''Notice to quit'', s0\<lparr>PDFParseClass := Some pdf0\<rparr>)"
  by (simp add: pdf_text_def getPdfParseClass_def env0_def s0_def pdf0_def)

lemma pdf_text_env0_cached:
  "pdf_text env0 (s0\<lparr>PDFParseClass := Some pdf0\<rparr>) buf
     = (Inr ''Notice to quit'', s0\<lparr>PDFParseClass := Some pdf0\<rparr>)"
  by (simp add: pdf_text_def getPdfParseClass_def env0_def s0_def pdf0_def)

lemma extract_text_scanned:
  "extract_text env_scanned s0 data0 ''A.PDF'' ''application/octet-stream''
     = (FullText [], s0\<lparr>PDFParseClass := Some scanned_pdf\<rparr>)"
proof -
  have l: "endsWith (toLowerCase ''A.PDF'') ''.pdf''"
    by (simp add: toLowerCase_def lower_unit_def endsWith_def)
  have p: "pdf_text env_scanned s0 buf = (Inr [], s0\<lparr>PDFParseClass := Some scanned_pdf\<rparr>)" for buf
    by (simp add: pdf_text_def getPdfParseClass_def env_scanned_def env0_def s0_def scanned_pdf_def)
  show ?thesis
    by (simp add: extract_text_def startsWith_def l p)
qed

text \<open>A scanned PDF through the whole tool.\<close>

lemma get_document_scanned:
  "get_document env_scanned s0 args0
     = Some (Inr (ok_result (no_text_failure ''A.PDF'' ''preview'')),
             s0\<lparr>PDFParseClass := Some scanned_pdf\<rparr>)"
proof -
  have a: "access_modes ''A.PDF'' args0 [] = Some (no_text_failure ''A.PDF'' ''preview'')"
    by (simp add: access_modes_def mode_of_def or_default_def args0_def)
  have i: "identifier_of (Some ''A.PDF'') args0 = ''A.PDF''"
    by (simp add: identifier_of_def or_default_def)
  have m: "mimeType_of data0 (Some ''A.PDF'') ''A.PDF'' = ''application/octet-stream''"
    by (simp add: mimeType_of_def or_default_def or_else_def truthy_def data0_def)
  have d: "download env_scanned q = Inr data0" for q
    by (simp add: env_scanned_def env0_def)
  have f: "extractFilenameFromDisposition env_scanned c = Inr (Some ''A.PDF'')" for c
    by (simp add: env_scanned_def env0_def)
  have u: "truthy (args_document_uuid args0)"
    by (simp add: truthy_def args0_def)
  show ?thesis
    by (simp add: get_document_def u d f i m extract_and_serve_def extract_text_scanned a)
qed

section \<open>chunkText: the partition\<close>

lemma less_chunk_count: "0 < b \<Longrightarrow> j < chunk_count len b \<longleftrightarrow> j * b < len"
proof -
  assume b: "0 < b"
  have "j < chunk_count len b \<longleftrightarrow> Suc j \<le> (len + b - 1) div b"
    by (simp add: chunk_count_def Suc_le_eq)
  also have "\<dots> \<longleftrightarrow> Suc j * b \<le> len + b - 1"
    using b by (simp add: less_eq_div_iff_mult_less_eq)
  also have "\<dots> \<longleftrightarrow> j * b < len"
    using b by auto
  finally show ?thesis .
qed

lemma chunk_count_covers: "0 < b \<Longrightarrow> len \<le> chunk_count len b * b"
  using less_chunk_count[of b "chunk_count len b" len] by (simp add: not_less)

lemma slice_take_drop:
  "m < length T \<Longrightarrow> slice T (int m) (int m + int b) = take b (drop m T)"
  by (simp add: slice_def Let_def min_def nat_diff_distrib nat_add_distrib)

lemma chunkText_loop_closed:
  assumes b: "0 < b"
  shows "chunkText_loop T (int b) (int (j * b)) acc =
           Some (acc @ map (chunk_at T b) [j ..< chunk_count (length T) b])"
proof (induction "chunk_count (length T) b - j" arbitrary: j acc rule: less_induct)
  case less
  show ?case
  proof (cases "j * b < length T")
    case False
    then have "\<not> j < chunk_count (length T) b"
      using b by (simp add: less_chunk_count)
    moreover from False have "\<not> int (j * b) < int (length T)"
      by (simp del: of_nat_mult)
    ultimately show ?thesis
      by (subst chunkText_loop.simps) (simp del: of_nat_mult)
  next
    case True
    then have jn: "j < chunk_count (length T) b"
      using b by (simp add: less_chunk_count)
    then have dec: "chunk_count (length T) b - Suc j < chunk_count (length T) b - j"
      by simp
    have nxt: "int (j * b) + int b = int (Suc j * b)"
      by simp
    from True have lt: "int (j * b) < int (length T)"
      by (simp del: of_nat_mult)
    have "chunkText_loop T (int b) (int (j * b)) acc =
          chunkText_loop T (int b) (int (j * b) + int b)
            (acc @ [slice T (int (j * b)) (int (j * b) + int b)])"
      by (subst chunkText_loop.simps) (simp only: lt if_True)
    also have "\<dots> = chunkText_loop T (int b) (int (Suc j * b)) (acc @ [chunk_at T b j])"
      by (subst slice_take_drop[OF True], subst nxt, simp only: chunk_at_def)
    also have "\<dots> = Some ((acc @ [chunk_at T b j]) @
                        map (chunk_at T b) [Suc j ..< chunk_count (length T) b])"
      by (rule less.hyps[OF dec])
    also have "\<dots> = Some (acc @ map (chunk_at T b) [j ..< chunk_count (length T) b])"
      using jn by (simp add: upt_conv_Cons)
    finally show ?thesis .
  qed
qed

lemma chunkText_closed:
  assumes B: "0 < B"
  shows "chunkText T B = Some (map (chunk_at T (nat B)) [0 ..< chunk_count (length T) (nat B)])"
proof -
  from B have b: "0 < nat B" and Bb: "B = int (nat B)"
    by simp_all
  have "chunkText T B = chunkText_loop T (int (nat B)) (int (0 * nat B)) []"
    using Bb by (simp add: chunkText_def)
  also have "\<dots> = Some ([] @ map (chunk_at T (nat B)) [0 ..< chunk_count (length T) (nat B)])"
    by (rule chunkText_loop_closed[OF b])
  finally show ?thesis
    by simp
qed

lemma concat_chunks: "concat (map (chunk_at T b) [0 ..< n]) = take (n * b) T"
proof (induction n)
  case 0
  show ?case by simp
next
  case (Suc n)
  have "take (n * b) T @ take b (drop (n * b) T) = take (n * b + b) T"
    by (simp add: take_add)
  then show ?case
    using Suc by (simp add: chunk_at_def add.commute)
qed

lemma length_chunk_at:
  "0 < b \<Longrightarrow> Suc k < chunk_count (length T) b \<Longrightarrow> length (chunk_at T b k) = b"
proof -
  assume b: "0 < b" and k: "Suc k < chunk_count (length T) b"
  then have "Suc k * b < length T"
    by (simp only: less_chunk_count)
  then show ?thesis
    by (simp add: chunk_at_def)
qed

lemma chunk_at_nonempty:
  "0 < b \<Longrightarrow> k < chunk_count (length T) b \<Longrightarrow> chunk_at T b k \<noteq> [] \<and> length (chunk_at T b k) \<le> b"
  by (simp add: less_chunk_count chunk_at_def)

text \<open>
  C1. For every text \<open>T\<close> and every positive integer budget \<open>B\<close>, \<^verbatim>\<open>chunkText\<close> returns,
  and its chunks partition \<open>T\<close>: their concatenation is \<open>T\<close>; chunk \<open>k\<close> is the \<open>B\<close>
  characters of \<open>T\<close> from position \<open>k * B\<close> (so chunks neither overlap nor skip); every
  chunk but the last has length exactly \<open>B\<close>; no chunk is empty or longer than \<open>B\<close>.
\<close>

theorem chunkText_partition:
  assumes "0 < B"
  shows "\<exists>chunks. chunkText T B = Some chunks
           \<and> concat chunks = T
           \<and> (\<forall>k < length chunks. chunks ! k = take (nat B) (drop (k * nat B) T))
           \<and> (\<forall>k. Suc k < length chunks \<longrightarrow> length (chunks ! k) = nat B)
           \<and> (\<forall>k < length chunks. chunks ! k \<noteq> [] \<and> int (length (chunks ! k)) \<le> B)"
proof -
  let ?b = "nat B"
  let ?n = "chunk_count (length T) ?b"
  let ?cs = "map (chunk_at T ?b) [0 ..< ?n]"
  from assms have b: "0 < ?b"
    by simp
  have ret: "chunkText T B = Some ?cs"
    by (rule chunkText_closed[OF assms])
  have cat: "concat ?cs = T"
    using chunk_count_covers[OF b, of "length T"] by (simp add: concat_chunks)
  have pos: "\<forall>k < length ?cs. ?cs ! k = take ?b (drop (k * ?b) T)"
    by (simp add: chunk_at_def)
  have full: "\<forall>k. Suc k < length ?cs \<longrightarrow> length (?cs ! k) = ?b"
    using length_chunk_at[OF b] by simp
  have bound: "\<forall>k < length ?cs. ?cs ! k \<noteq> [] \<and> int (length (?cs ! k)) \<le> B"
  proof (intro allI impI)
    fix k assume "k < length ?cs"
    then have k: "k < ?n"
      by simp
    from chunk_at_nonempty[OF b k] have "chunk_at T ?b k \<noteq> []" and "length (chunk_at T ?b k) \<le> ?b"
      by simp_all
    with k assms show "?cs ! k \<noteq> [] \<and> int (length (?cs ! k)) \<le> B"
      by simp
  qed
  from ret cat pos full bound show ?thesis
    by blast
qed

theorem chunkText_partition_witness:
  "(0::int) < 3
   \<and> chunkText ''abcdefg'' 3 = Some [''abc'', ''def'', ''g'']
   \<and> (\<exists>chunks. chunkText ''abcdefg'' 3 = Some chunks \<and> concat chunks = ''abcdefg''
         \<and> (\<forall>k. Suc k < length chunks \<longrightarrow> length (chunks ! k) = nat 3))"
proof -
  have h: "(0::int) < 3"
    by simp
  have e: "chunkText ''abcdefg'' 3 = Some [''abc'', ''def'', ''g'']"
    by (simp add: chunkText_def chunkText_loop.simps slice_def)
  from chunkText_partition[OF h, of "''abcdefg''"] h e show ?thesis
    by blast
qed

section \<open>The access modes: shared facts\<close>


lemma trim_nonblank_nonempty: "trim s \<noteq> [] \<Longrightarrow> s \<noteq> []"
  by (auto simp: trim_def)

lemma maxChars_of_pos: "0 < maxChars_of args"
  by (simp add: maxChars_of_def)

lemma estimated_tokens_div: "estimated_tokens n = (int n + 2) div 4"
proof -
  have "(of_nat n / 4 + 1 / 2 :: rat) = of_int (int n + 2) / of_int 4"
    by (simp add: field_simps)
  then show ?thesis
    unfolding estimated_tokens_def Math_round_def by (simp only: floor_divide_of_int_eq)
qed

lemma chunkText_chunks_of: "0 < B \<Longrightarrow> chunkText T B = Some (chunks_of T B)"
  by (simp add: chunkText_closed chunks_of_def)

lemma access_modes_nonblank:
  assumes "trim fullText \<noteq> []"
  shows "access_modes identifier args fullText =
     Some (if mode_of args = ''full'' \<and> estimated_tokens (length fullText) > MAX_FULL_TOKENS
           then size_guard_failure identifier (estimated_tokens (length fullText))
           else if mode_of args = ''preview''
           then preview_payload identifier (length fullText) (estimated_tokens (length fullText))
                  (chunks_of fullText (maxChars_of args))
           else if mode_of args = ''chunk''
           then chunk_mode identifier args (length fullText) (estimated_tokens (length fullText))
                  (chunks_of fullText (maxChars_of args))
           else if mode_of args = ''search''
           then search_mode identifier args fullText (length fullText)
                  (estimated_tokens (length fullText)) (maxChars_of args)
           else if mode_of args = ''full''
           then full_payload identifier (length fullText) (estimated_tokens (length fullText))
                  (maxChars_of args) fullText
           else unsupported_mode_failure identifier (mode_of args))"
proof -
  from assms have ne: "fullText \<noteq> []"
    by (rule trim_nonblank_nonempty)
  have ch: "chunkText fullText (maxChars_of args) = Some (chunks_of fullText (maxChars_of args))"
    by (rule chunkText_chunks_of[OF maxChars_of_pos])
  show ?thesis
    using assms ne by (simp add: access_modes_def Let_def ch)
qed



section \<open>The guard for empty text\<close>

text \<open>
  C6. An extracted text that is empty or consists of white space only makes
  \<^verbatim>\<open>get_document\<close> return the one failure "No text content could be extracted from
  this document.", with no text, whatever the arguments: the requested mode (preview,
  chunk, search, full or any other string), the index, the budget and the query are
  arbitrary. The guard stands before \<^verbatim>\<open>chunkText\<close> and before every test of the mode.
\<close>

theorem blank_text_short_circuits:
  assumes "fullText = [] \<or> trim fullText = []"
  shows "access_modes identifier args fullText = Some (no_text_failure identifier (mode_of args))
         \<and> (extract_text e s d identifier mimeType = (FullText fullText, s') \<longrightarrow>
              extract_and_serve e s args d identifier mimeType
                = Some (no_text_failure identifier (mode_of args), s'))
         \<and> field (no_text_failure identifier (mode_of args)) ''success'' = JBool False
         \<and> field (no_text_failure identifier (mode_of args)) ''error''
             = JStr ''No text content could be extracted from this document.''
         \<and> field (no_text_failure identifier (mode_of args)) ''text'' = JUndefined"
proof -
  from assms
  have a: "access_modes identifier args fullText = Some (no_text_failure identifier (mode_of args))"
    by (simp add: access_modes_def Let_def)
  then have "extract_and_serve e s args d identifier mimeType
                = Some (no_text_failure identifier (mode_of args), s')"
    if "extract_text e s d identifier mimeType = (FullText fullText, s')"
    using that by (simp add: extract_and_serve_def)
  with a show ?thesis
    by (simp add: field_def no_text_failure_def)
qed

theorem blank_text_short_circuits_witness:
  "trim '' \<newline> '' = []
   \<and> access_modes ''memo.pdf'' (args0\<lparr>args_mode := Some ''full''\<rparr>) '' \<newline> ''
       = Some (no_text_failure ''memo.pdf'' ''full'')
   \<and> access_modes ''memo.pdf'' (args0\<lparr>args_mode := Some ''chunk'', args_chunk_index := JNum 7\<rparr>) []
       = Some (no_text_failure ''memo.pdf'' ''chunk'')
   \<and> access_modes ''memo.pdf'' (args0\<lparr>args_mode := Some ''search'', args_search_query := Some ''rent''\<rparr>) '' \<newline> ''
       = Some (no_text_failure ''memo.pdf'' ''search'')
   \<and> access_modes ''memo.pdf'' args0 '' \<newline> '' = Some (no_text_failure ''memo.pdf'' ''preview'')
   \<and> access_modes ''memo.pdf'' (args0\<lparr>args_mode := Some ''summary''\<rparr>) '' \<newline> ''
       = Some (no_text_failure ''memo.pdf'' ''summary'')
   \<and> extract_text env_scanned s0 data0 ''A.PDF'' ''application/octet-stream''
       = (FullText [], s0\<lparr>PDFParseClass := Some scanned_pdf\<rparr>)
   \<and> extract_and_serve env_scanned s0 (args0\<lparr>args_mode := Some ''full''\<rparr>) data0 ''A.PDF''
         ''application/octet-stream''
       = Some (no_text_failure ''A.PDF'' ''full'', s0\<lparr>PDFParseClass := Some scanned_pdf\<rparr>)"
proof -
  have t: "trim '' \<newline> '' = []"
    by (simp add: trim_def is_space_def)
  then have h: "'' \<newline> '' = [] \<or> trim '' \<newline> '' = []"
    by simp
  have h0: "([]::string) = [] \<or> trim [] = []"
    by simp
  have x: "extract_and_serve env_scanned s0 (args0\<lparr>args_mode := Some ''full''\<rparr>) data0 ''A.PDF''
         ''application/octet-stream''
       = Some (no_text_failure ''A.PDF'' ''full'', s0\<lparr>PDFParseClass := Some scanned_pdf\<rparr>)"
    using blank_text_short_circuits [OF h0, of "''A.PDF''" "args0\<lparr>args_mode := Some ''full''\<rparr>"
        env_scanned s0 data0 "''application/octet-stream''"
        "s0\<lparr>PDFParseClass := Some scanned_pdf\<rparr>"]
      extract_text_scanned
    by (simp add: mode_of_def or_default_def args0_def)
  show ?thesis
    using t x extract_text_scanned
      blank_text_short_circuits [OF h, of "''memo.pdf''" "args0\<lparr>args_mode := Some ''full''\<rparr>"]
      blank_text_short_circuits [OF h0, of "''memo.pdf''"
        "args0\<lparr>args_mode := Some ''chunk'', args_chunk_index := JNum 7\<rparr>"]
      blank_text_short_circuits [OF h, of "''memo.pdf''"
        "args0\<lparr>args_mode := Some ''search'', args_search_query := Some ''rent''\<rparr>"]
      blank_text_short_circuits [OF h, of "''memo.pdf''" args0]
      blank_text_short_circuits [OF h, of "''memo.pdf''" "args0\<lparr>args_mode := Some ''summary''\<rparr>"]
    by (simp add: mode_of_def or_default_def args0_def)
qed

section \<open>The budget\<close>

lemma maxChars_of_update [simp]:
  "maxChars_of (args\<lparr>args_max_chars := JNum (maxChars_of args)\<rparr>) = maxChars_of args"
  by (simp add: maxChars_of_def)



section \<open>Mode full\<close>







section \<open>Mode chunk\<close>





lemma field_chunk_range_failure:
  "field (chunk_range_failure identifier idx len chunks) ''success'' = JBool False"
  "field (chunk_range_failure identifier idx len chunks) ''error''
     = JTemplate [Lit ''chunk_index '', Num idx, Lit '' out of range (0-'',
                  Num (of_nat (length chunks) - 1), Lit '')'']"
  "field (chunk_range_failure identifier idx len chunks) ''text'' = JUndefined"
  by (simp_all add: field_def chunk_range_failure_def)





text \<open>
  The test of line 719, \<^verbatim>\<open>idx < 0 || idx >= chunks.length\<close>, compares numbers and does
  not ask for an integer. On the three chunks of \<open>''hello world''\<close> under a budget of 4,
  the index \<open>5/2\<close> lies inside \<open>[0, 2]\<close> and the index \<open>1/2\<close> too: the call answers
  \<^verbatim>\<open>success: true\<close> with the index sent and no \<^verbatim>\<open>text\<close> property, since \<^verbatim>\<open>chunks[2.5]\<close> is
  \<^verbatim>\<open>undefined\<close>. The index \<open>7/2\<close> is at least the chunk count and gives the failure.
\<close>

lemma floor_halves:
  "\<lfloor>5 / 2 :: rat\<rfloor> = 2" "\<lfloor>1 / 2 :: rat\<rfloor> = 0" "\<lfloor>7 / 2 :: rat\<rfloor> = 3"
  by (simp_all add: floor_eq_iff)

lemma not_integer_halves:
  "\<not> is_integer (5 / 2)" "\<not> is_integer (1 / 2)" "\<not> is_integer (7 / 2)"
  unfolding is_integer_def floor_halves by simp_all

lemma chunk_mode_fractional_index:
  "map_option (\<lambda>p. (field p ''success'', field p ''chunk_index'', field p ''text''))
     (access_modes ''memo.txt''
        (args0\<lparr>args_mode := Some ''chunk'', args_chunk_index := JNum (5 / 2), args_max_chars := JNum 4\<rparr>)
        ''hello world'')
     = Some (JBool True, JNum (5 / 2), JUndefined)"
  "map_option (\<lambda>p. (field p ''success'', field p ''chunk_index'', field p ''text''))
     (access_modes ''memo.txt''
        (args0\<lparr>args_mode := Some ''chunk'', args_chunk_index := JNum (1 / 2), args_max_chars := JNum 4\<rparr>)
        ''hello world'')
     = Some (JBool True, JNum (1 / 2), JUndefined)"
  "map_option (\<lambda>p. (field p ''success'', field p ''error''))
     (access_modes ''memo.txt''
        (args0\<lparr>args_mode := Some ''chunk'', args_chunk_index := JNum (7 / 2), args_max_chars := JNum 4\<rparr>)
        ''hello world'')
     = Some (JBool False,
             JTemplate [Lit ''chunk_index '', Num (7 / 2), Lit '' out of range (0-'', Num 2, Lit '')''])"
  by (simp_all add: access_modes_def Let_def mode_of_def or_default_def args0_def
      maxChars_of_def idx_of_def trim_def is_space_def chunkText_def chunkText_loop.simps
      slice_def chunk_mode_def field_def chunk_payload_def chunk_range_failure_def
      at_index_def not_integer_halves show_int_def show_nat.simps digit_def)

section \<open>Mode search\<close>

lemma push_context_within:
  "within_budget B st \<Longrightarrow> within_budget B (push_context B ps st)"
proof (induction ps arbitrary: st)
  case Nil
  then show ?case by simp
next
  case (Cons p ps)
  obtain ms acc where st: "st = (ms, acc)"
    by (cases st)
  show ?case
  proof (cases "int (length acc) + int (length p) + 2 > B")
    case True
    with Cons.prems st show ?thesis by simp
  next
    case False
    from Cons.prems st False have "within_budget B (ms @ [p], acc @ p @ [NL, NL])"
      by (simp add: within_budget_def separated_def)
    then have "within_budget B (push_context B ps (ms @ [p], acc @ p @ [NL, NL]))"
      by (rule Cons.IH)
    with st False show ?thesis by simp
  qed
qed

lemma visit_within: "within_budget B st \<Longrightarrow> within_budget B (visit ps q B i st)"
  by (simp add: visit_def push_context_within)

lemma search_loop_within:
  "within_budget B st \<Longrightarrow> within_budget B (search_loop ps q B i st)"
proof (induction ps q B i st rule: search_loop.induct)
  case (1 paragraphs q maxChars i st)
  show ?case
  proof (cases "i < length paragraphs")
    case False
    with "1.prems" show ?thesis
      by (subst search_loop.simps) simp
  next
    case True
    note v = visit_within[OF "1.prems", of paragraphs q i]
    show ?thesis
    proof (cases "int (length (snd (visit paragraphs q maxChars i st))) \<ge> maxChars")
      case full: True
      with True v show ?thesis
        by (subst search_loop.simps) simp
    next
      case more: False
      from "1.IH"[OF True more v] True more show ?thesis
        by (subst search_loop.simps) simp
    qed
  qed
qed

lemma join_append_sep: "ms \<noteq> [] \<Longrightarrow> join sep ms @ sep = concat (map (\<lambda>p. p @ sep) ms)"
  by (induction sep ms rule: join.induct) simp_all

lemma join_separated: "ms \<noteq> [] \<Longrightarrow> join [NL, NL] ms @ [NL, NL] = separated ms"
  unfolding separated_def by (rule join_append_sep)

lemma length_join_within:
  assumes "within_budget B (ms, acc)" and "0 < B"
  shows "int (length (join [NL, NL] ms)) < B"
proof (cases "ms = []")
  case True
  with assms(2) show ?thesis by simp
next
  case False
  then have "length (join [NL, NL] ms) + 2 = length (separated ms)"
    using join_separated[OF False, symmetric] by simp
  moreover from assms(1) have "int (length (separated ms)) \<le> B"
    by (simp add: within_budget_def)
  ultimately show ?thesis
    by linarith
qed

lemma search_matches_within:
  assumes "0 < B"
  shows "within_budget B (search_loop (split_paragraphs T) q B 0 ([], []))"
proof -
  from assms have "within_budget B ([], [])"
    by (simp add: within_budget_def separated_def)
  then show ?thesis
    by (rule search_loop_within)
qed

lemma field_search_payload:
  "field (search_payload identifier q len E ms) ''success'' = JBool True"
  "field (search_payload identifier q len E ms) ''text'' = JStr (join [NL, NL] ms)"
  "field (search_payload identifier q len E ms) ''snippet_count'' = JNum (of_nat (length ms))"
  by (simp_all add: field_def search_payload_def)

lemma field_query_required:
  "field (query_required_failure identifier) ''success'' = JBool False"
  by (simp add: field_def query_required_failure_def)

text \<open>
  C10. For every text, query and positive budget \<open>maxChars\<close>, the matches joined by two
  line feeds are strictly shorter than \<open>maxChars\<close>, because the matches with two line
  feeds after each are within it; so the text of every successful search response of
  \<^verbatim>\<open>get_document\<close> is strictly shorter than the budget of the call. The search
  succeeds, with that text, whenever the extracted text is not blank and the trimmed
  query is not empty.
\<close>

theorem search_within_budget:
  "(0 < maxChars \<longrightarrow>
      int (length (join [NL, NL] (search_matches fullText q maxChars))) < maxChars
      \<and> int (length (separated (search_matches fullText q maxChars))) \<le> maxChars)
   \<and> (mode_of args = ''search'' \<and> access_modes identifier args fullText = Some p
        \<and> field p ''success'' = JBool True \<longrightarrow>
        (\<exists>t. field p ''text'' = JStr t \<and> int (length t) < maxChars_of args))
   \<and> (mode_of args = ''search'' \<and> trim fullText \<noteq> [] \<and> q_of args \<noteq> [] \<longrightarrow>
        (\<exists>r. access_modes identifier args fullText = Some r
           \<and> field r ''success'' = JBool True
           \<and> field r ''text''
               = JStr (join [NL, NL] (search_matches fullText (q_of args) (maxChars_of args)))))"
proof (intro conjI impI)
  assume "mode_of args = ''search'' \<and> trim fullText \<noteq> [] \<and> q_of args \<noteq> []"
  then have m: "mode_of args = ''search''" and t: "trim fullText \<noteq> []" and q: "q_of args \<noteq> []"
    by simp_all
  show "\<exists>r. access_modes identifier args fullText = Some r
           \<and> field r ''success'' = JBool True
           \<and> field r ''text''
               = JStr (join [NL, NL] (search_matches fullText (q_of args) (maxChars_of args)))"
    using m q by (simp add: access_modes_nonblank[OF t] search_mode_def Let_def field_search_payload)
next
  assume B: "0 < maxChars"
  let ?st = "search_loop (split_paragraphs fullText) q maxChars 0 ([], [])"
  have w: "within_budget maxChars (fst ?st, snd ?st)"
    using search_matches_within[OF B] by simp
  then show "int (length (join [NL, NL] (search_matches fullText q maxChars))) < maxChars"
    unfolding search_matches_def using B by (rule length_join_within)
  from w show "int (length (separated (search_matches fullText q maxChars))) \<le> maxChars"
    by (simp add: within_budget_def search_matches_def)
next
  assume a: "mode_of args = ''search'' \<and> access_modes identifier args fullText = Some p
        \<and> field p ''success'' = JBool True"
  then have m: "mode_of args = ''search''"
    and r: "access_modes identifier args fullText = Some p"
    and ok: "field p ''success'' = JBool True"
    by simp_all
  show "\<exists>t. field p ''text'' = JStr t \<and> int (length t) < maxChars_of args"
  proof (cases "trim fullText = []")
    case True
    with r ok show ?thesis
      by (auto simp: access_modes_def Let_def field_def no_text_failure_def)
  next
    case False
    let ?B = "maxChars_of args"
    have w: "within_budget ?B (fst (search_loop (split_paragraphs fullText) (q_of args) ?B 0 ([], [])),
               snd (search_loop (split_paragraphs fullText) (q_of args) ?B 0 ([], [])))"
      using search_matches_within[OF maxChars_of_pos] by simp
    have l: "int (length (join [NL, NL] (search_matches fullText (q_of args) ?B))) < ?B"
      unfolding search_matches_def using w maxChars_of_pos by (rule length_join_within)
    from r m have p: "p = search_mode identifier args fullText (length fullText)
                  (estimated_tokens (length fullText)) ?B"
      by (simp add: access_modes_nonblank[OF False])
    show ?thesis
    proof (cases "q_of args = []")
      case True
      with ok p show ?thesis
        by (simp add: search_mode_def Let_def field_query_required)
    next
      case False
      with p l show ?thesis
        by (simp add: search_mode_def Let_def field_search_payload)
    qed
  qed
qed

theorem search_within_budget_witness:
  "(0::int) < 10
   \<and> search_matches ''0123456789q\<newline>\<newline>a\<newline>\<newline>q'' ''q'' 10 = [''a'', ''q'']
   \<and> int (length (join [NL, NL] (search_matches ''0123456789q\<newline>\<newline>a\<newline>\<newline>q'' ''q'' 10))) < 10
   \<and> mode_of (args0\<lparr>args_mode := Some ''search'', args_search_query := Some '' Q '',
                     args_max_chars := JNum 100\<rparr>) = ''search''
   \<and> (\<exists>t. access_modes ''memo.txt''
              (args0\<lparr>args_mode := Some ''search'', args_search_query := Some '' Q '',
                     args_max_chars := JNum 100\<rparr>)
              ''0123456789q\<newline>\<newline>a\<newline>\<newline>q''
            = Some (search_payload ''memo.txt'' ''q'' 17 4 [''0123456789q'', ''a'', ''a'', ''q''])
          \<and> field (search_payload ''memo.txt'' ''q'' 17 4 [''0123456789q'', ''a'', ''a'', ''q''])
               ''text'' = JStr t
          \<and> int (length t) < 100)"
proof -
  let ?T = "''0123456789q\<newline>\<newline>a\<newline>\<newline>q''"
  let ?a = "args0\<lparr>args_mode := Some ''search'', args_search_query := Some '' Q '',
                     args_max_chars := JNum 100\<rparr>"
  let ?p = "search_payload ''memo.txt'' ''q'' 17 4 [''0123456789q'', ''a'', ''a'', ''q'']"
  have B: "(0::int) < 10"
    by simp
  have sp: "split_paragraphs ?T = [''0123456789q'', ''a'', ''q'']"
    by (simp add: split_paragraphs_def)
  have m10: "search_matches ?T ''q'' 10 = [''a'', ''q'']"
    by (simp add: search_matches_def sp search_loop.simps visit_def context_of_def
        toLowerCase_def lower_unit_def startsWith_def)
  have m100: "search_matches ?T ''q'' 100 = [''0123456789q'', ''a'', ''a'', ''q'']"
    by (simp add: search_matches_def sp search_loop.simps visit_def context_of_def
        toLowerCase_def lower_unit_def startsWith_def)
  have m: "mode_of ?a = ''search''"
    by (simp add: mode_of_def or_default_def args0_def)
  have q: "q_of ?a = ''q''"
    by (simp add: q_of_def or_default_def args0_def trim_def is_space_def toLowerCase_def
        lower_unit_def)
  have Ba: "maxChars_of ?a = 100"
    by (simp add: maxChars_of_def args0_def)
  have t: "trim ?T \<noteq> []"
    by (simp add: trim_def is_space_def)
  have r: "access_modes ''memo.txt'' ?a ?T = Some ?p"
    by (simp add: access_modes_nonblank[OF t] m q Ba search_mode_def Let_def search_payload_def m100
        estimated_tokens_div)
  have ok: "field ?p ''success'' = JBool True"
    by (rule field_search_payload)
  from search_within_budget [of 10 ?T "''q''"] B
  have l: "int (length (join [NL, NL] (search_matches ?T ''q'' 10))) < 10"
    by blast
  from search_within_budget [of 10 ?T "''q''" ?a "''memo.txt''" ?p] m r ok Ba
  have "\<exists>t. field ?p ''text'' = JStr t \<and> int (length t) < 100"
    by simp
  with B m10 l m r show ?thesis
    by blast
qed

text \<open>
  C5, evaluated. Budget 10, query \<open>q\<close>, paragraphs \<open>0123456789q\<close>, \<open>a\<close>, \<open>q\<close>. The first
  paragraph matches and does not fit (\<open>0 + 11 + 2 > 10\<close>): the inner \<^verbatim>\<open>break\<close> drops it
  and its context. The outer loop goes on, since \<open>accumulated.length >= maxChars\<close> is
  false, and the third paragraph, which matches too, adds \<open>a\<close> and \<open>q\<close>.
\<close>

theorem search_continues_after_overflow:
  "split_paragraphs ''0123456789q\<newline>\<newline>a\<newline>\<newline>q'' = [''0123456789q'', ''a'', ''q'']
   \<and> includes_str (toLowerCase ''0123456789q'') ''q''
   \<and> int (length '''') + int (length ''0123456789q'') + 2 > 10
   \<and> search_matches ''0123456789q\<newline>\<newline>a\<newline>\<newline>q'' ''q'' 10 = [''a'', ''q'']
   \<and> access_modes ''memo.txt''
        (args0\<lparr>args_mode := Some ''search'', args_search_query := Some ''q'',
               args_max_chars := JNum 10\<rparr>)
        ''0123456789q\<newline>\<newline>a\<newline>\<newline>q''
      = Some (search_payload ''memo.txt'' ''q'' 17 4 [''a'', ''q''])
   \<and> field (search_payload ''memo.txt'' ''q'' 17 4 [''a'', ''q'']) ''snippet_count'' = JNum 2
   \<and> field (search_payload ''memo.txt'' ''q'' 17 4 [''a'', ''q'']) ''text''
       = JStr ''a\<newline>\<newline>q''"
proof -
  let ?T = "''0123456789q\<newline>\<newline>a\<newline>\<newline>q''"
  let ?a = "args0\<lparr>args_mode := Some ''search'', args_search_query := Some ''q'',
               args_max_chars := JNum 10\<rparr>"
  have sp: "split_paragraphs ?T = [''0123456789q'', ''a'', ''q'']"
    by (simp add: split_paragraphs_def)
  have inc: "includes_str (toLowerCase ''0123456789q'') ''q''"
    by (simp add: toLowerCase_def lower_unit_def startsWith_def)
  have m10: "search_matches ?T ''q'' 10 = [''a'', ''q'']"
    by (simp add: search_matches_def sp search_loop.simps visit_def context_of_def
        toLowerCase_def lower_unit_def startsWith_def)
  have m: "mode_of ?a = ''search''"
    by (simp add: mode_of_def or_default_def args0_def)
  have q: "q_of ?a = ''q''"
    by (simp add: q_of_def or_default_def args0_def trim_def is_space_def toLowerCase_def
        lower_unit_def)
  have Ba: "maxChars_of ?a = 10"
    by (simp add: maxChars_of_def args0_def)
  have t: "trim ?T \<noteq> []"
    by (simp add: trim_def is_space_def)
  have r: "access_modes ''memo.txt'' ?a ?T = Some (search_payload ''memo.txt'' ''q'' 17 4 [''a'', ''q''])"
    by (simp add: access_modes_nonblank[OF t] m q Ba search_mode_def Let_def search_payload_def m10
        estimated_tokens_div)
  from sp inc m10 r show ?thesis
    by (simp add: field_search_payload)
qed

section \<open>Format dispatch\<close>

lemma startsWith_includes: "startsWith xs m \<Longrightarrow> includes_str xs m"
  by (cases xs) (simp_all add: startsWith_def)

lemma includes_str_self_append: "includes_str (m @ b) m"
  by (rule startsWith_includes) (simp add: startsWith_def)

lemma includes_str_mid: "includes_str (a @ m @ b) m"
proof (induction a)
  case Nil
  show ?case by (simp add: includes_str_self_append)
next
  case (Cons c a)
  then show ?case by simp
qed

lemma field_image_failure:
  "field (image_failure identifier mimeType n) ''success'' = JBool False"
  "field (image_failure identifier mimeType n) ''error'' = JStr ''Image document - OCR not available''"
  "\<exists>t. field (image_failure identifier mimeType n) ''suggestion'' = JStr t \<and> includes_str t ''OCR''"
  by (simp_all add: field_def image_failure_def startsWith_def)

lemma field_unsupported_format:
  "field (unsupported_format_failure identifier mimeType n) ''success'' = JBool False"
  "field (unsupported_format_failure identifier mimeType n) ''error''
     = JStr ''Unsupported document format for text extraction''"
  "field (unsupported_format_failure identifier mimeType n) ''mime_type'' = JStr mimeType"
  "\<exists>t. field (unsupported_format_failure identifier mimeType n) ''suggestion'' = JStr t
       \<and> includes_str t mimeType"
proof -
  have "includes_str (''This document type ('' @ mimeType @ '') cannot be read directly. Supported formats: PDF, plain text. Please ask the user if they can provide the document in a supported format.'') mimeType"
    by (rule includes_str_mid)
  then show "\<exists>t. field (unsupported_format_failure identifier mimeType n) ''suggestion'' = JStr t
       \<and> includes_str t mimeType"
    by (simp add: field_def unsupported_format_failure_def)
qed (simp_all add: field_def unsupported_format_failure_def)

text \<open>
  C2, amended in the test on the identifier. With \<open>mimeType\<close> the declared MIME type, or
  else the type guessed from the name, or else \<^verbatim>\<open>application/octet-stream\<close>, the
  dispatch takes the first of five cases that applies:
  \<^enum> \<open>mimeType\<close> starts with \<^verbatim>\<open>image/\<close>: the failure that suggests OCR, at once, with
    no extractor called and the state unchanged;
  \<^enum> it starts with \<^verbatim>\<open>text/\<close> or contains \<^verbatim>\<open>plain\<close>: the bytes decoded as UTF-8;
  \<^enum> it is \<^verbatim>\<open>application/pdf\<close> or contains \<^verbatim>\<open>pdf\<close>, or the identifier
    \<^emph>\<open>in lower case\<close> ends in \<^verbatim>\<open>.pdf\<close>: PDF extraction;
  \<^enum> it contains \<^verbatim>\<open>word\<close> or \<^verbatim>\<open>officedocument\<close>: word-processor extraction;
  \<^enum> anything else: the unsupported-format failure, whose suggestion names \<open>mimeType\<close>.
\<close>

theorem format_dispatch:
  "(startsWith mimeType ''image/'' \<longrightarrow>
      extract_text e s d identifier mimeType
        = (Returned (image_failure identifier mimeType (length (data_content d))), s))
   \<and> (\<not> startsWith mimeType ''image/''
       \<and> (startsWith mimeType ''text/'' \<or> includes_str mimeType ''plain'') \<longrightarrow>
      extract_text e s d identifier mimeType = (FullText (toString_utf8 e (data_content d)), s))
   \<and> (\<not> startsWith mimeType ''image/''
       \<and> \<not> (startsWith mimeType ''text/'' \<or> includes_str mimeType ''plain'')
       \<and> (mimeType = ''application/pdf'' \<or> includes_str mimeType ''pdf''
            \<or> endsWith (toLowerCase identifier) ''.pdf'') \<longrightarrow>
      extract_text e s d identifier mimeType
        = (case pdf_text e s (data_content d) of
             (Inl err, s') \<Rightarrow> (Thrown err, s')
           | (Inr t, s') \<Rightarrow> (FullText t, s')))
   \<and> (\<not> startsWith mimeType ''image/''
       \<and> \<not> (startsWith mimeType ''text/'' \<or> includes_str mimeType ''plain'')
       \<and> \<not> (mimeType = ''application/pdf'' \<or> includes_str mimeType ''pdf''
              \<or> endsWith (toLowerCase identifier) ''.pdf'')
       \<and> (includes_str mimeType ''word'' \<or> includes_str mimeType ''officedocument'') \<longrightarrow>
      extract_text e s d identifier mimeType
        = (case mammoth_extractRawText e (data_content d) of
             Inl err \<Rightarrow> (Thrown err, s)
           | Inr v \<Rightarrow> (FullText v, s)))
   \<and> (\<not> startsWith mimeType ''image/''
       \<and> \<not> (startsWith mimeType ''text/'' \<or> includes_str mimeType ''plain'')
       \<and> \<not> (mimeType = ''application/pdf'' \<or> includes_str mimeType ''pdf''
              \<or> endsWith (toLowerCase identifier) ''.pdf'')
       \<and> \<not> (includes_str mimeType ''word'' \<or> includes_str mimeType ''officedocument'') \<longrightarrow>
      extract_text e s d identifier mimeType
        = (Returned (unsupported_format_failure identifier mimeType (length (data_content d))), s))
   \<and> field (image_failure identifier mimeType (length (data_content d))) ''success'' = JBool False
   \<and> (\<exists>t. field (image_failure identifier mimeType (length (data_content d))) ''suggestion''
             = JStr t \<and> includes_str t ''OCR'')
   \<and> field (unsupported_format_failure identifier mimeType (length (data_content d))) ''success''
       = JBool False
   \<and> (\<exists>t. field (unsupported_format_failure identifier mimeType (length (data_content d)))
             ''suggestion'' = JStr t \<and> includes_str t mimeType)"
  by (simp add: extract_text_def field_image_failure field_unsupported_format)

theorem format_dispatch_witness:
  "startsWith ''image/jpeg'' ''image/''
   \<and> extract_text env0 s0 data0 ''scan.jpg'' ''image/jpeg''
       = (Returned (image_failure ''scan.jpg'' ''image/jpeg'' 4), s0)
   \<and> extract_text env0 s0 data0 ''notes.pdf'' ''text/plain''
       = (FullText (toString_utf8 env0 (data_content data0)), s0)
   \<and> extract_text env0 s0 data0 ''notes.txt'' ''application/pdf''
       = (FullText ''Notice to quit'', s0\<lparr>PDFParseClass := Some pdf0\<rparr>)
   \<and> extract_text env0 s0 data0 ''a.pdf'' ''application/octet-stream''
       = (FullText ''Notice to quit'', s0\<lparr>PDFParseClass := Some pdf0\<rparr>)
   \<and> extract_text env0 s0 data0 ''letter.doc'' ''application/msword''
       = (Thrown (Error ''Can not find end of central directory''), s0)
   \<and> extract_text env0 s0 data0 ''data.bin'' ''application/octet-stream''
       = (Returned (unsupported_format_failure ''data.bin'' ''application/octet-stream'' 4), s0)"
proof -
  have img: "startsWith ''image/jpeg'' ''image/''"
    by (simp add: startsWith_def)
  have tx: "\<not> startsWith ''text/plain'' ''image/''
       \<and> (startsWith ''text/plain'' ''text/'' \<or> includes_str ''text/plain'' ''plain'')"
    by (simp add: startsWith_def)
  have pdf: "\<not> startsWith ''application/pdf'' ''image/''
       \<and> \<not> (startsWith ''application/pdf'' ''text/'' \<or> includes_str ''application/pdf'' ''plain'')
       \<and> (''application/pdf'' = ''application/pdf'' \<or> includes_str ''application/pdf'' ''pdf''
            \<or> endsWith (toLowerCase ''notes.txt'') ''.pdf'')"
    by (simp add: startsWith_def)
  have ext: "\<not> startsWith ''application/octet-stream'' ''image/''
       \<and> \<not> (startsWith ''application/octet-stream'' ''text/''
              \<or> includes_str ''application/octet-stream'' ''plain'')
       \<and> (''application/octet-stream'' = ''application/pdf''
            \<or> includes_str ''application/octet-stream'' ''pdf''
            \<or> endsWith (toLowerCase ''a.pdf'') ''.pdf'')"
    by (simp add: startsWith_def toLowerCase_def lower_unit_def endsWith_def)
  have doc: "\<not> startsWith ''application/msword'' ''image/''
       \<and> \<not> (startsWith ''application/msword'' ''text/'' \<or> includes_str ''application/msword'' ''plain'')
       \<and> \<not> (''application/msword'' = ''application/pdf'' \<or> includes_str ''application/msword'' ''pdf''
              \<or> endsWith (toLowerCase ''letter.doc'') ''.pdf'')
       \<and> (includes_str ''application/msword'' ''word''
            \<or> includes_str ''application/msword'' ''officedocument'')"
    by (simp add: startsWith_def toLowerCase_def lower_unit_def endsWith_def)
  have bin: "\<not> startsWith ''application/octet-stream'' ''image/''
       \<and> \<not> (startsWith ''application/octet-stream'' ''text/''
              \<or> includes_str ''application/octet-stream'' ''plain'')
       \<and> \<not> (''application/octet-stream'' = ''application/pdf''
              \<or> includes_str ''application/octet-stream'' ''pdf''
              \<or> endsWith (toLowerCase ''data.bin'') ''.pdf'')
       \<and> \<not> (includes_str ''application/octet-stream'' ''word''
              \<or> includes_str ''application/octet-stream'' ''officedocument'')"
    by (simp add: startsWith_def toLowerCase_def lower_unit_def endsWith_def)
  have len: "length (data_content data0) = 4"
    by (simp add: data0_def)
  have mam: "mammoth_extractRawText env0 (data_content data0)
               = Inl (Error ''Can not find end of central directory'')"
    by (simp add: env0_def)
  from format_dispatch [of "''image/jpeg''" env0 s0 data0 "''scan.jpg''"] img len
  have 1: "extract_text env0 s0 data0 ''scan.jpg'' ''image/jpeg''
       = (Returned (image_failure ''scan.jpg'' ''image/jpeg'' 4), s0)"
    by simp
  from format_dispatch [of "''text/plain''" env0 s0 data0 "''notes.pdf''"] tx
  have 2: "extract_text env0 s0 data0 ''notes.pdf'' ''text/plain''
       = (FullText (toString_utf8 env0 (data_content data0)), s0)"
    by blast
  from format_dispatch [of "''application/pdf''" env0 s0 data0 "''notes.txt''"] pdf
  have 3: "extract_text env0 s0 data0 ''notes.txt'' ''application/pdf''
       = (FullText ''Notice to quit'', s0\<lparr>PDFParseClass := Some pdf0\<rparr>)"
    by (simp add: pdf_text_env0)
  from format_dispatch [of "''application/octet-stream''" env0 s0 data0 "''a.pdf''"] ext
  have 4: "extract_text env0 s0 data0 ''a.pdf'' ''application/octet-stream''
       = (FullText ''Notice to quit'', s0\<lparr>PDFParseClass := Some pdf0\<rparr>)"
    by (simp add: pdf_text_env0)
  from format_dispatch [of "''application/msword''" env0 s0 data0 "''letter.doc''"] doc
  have 5: "extract_text env0 s0 data0 ''letter.doc'' ''application/msword''
       = (Thrown (Error ''Can not find end of central directory''), s0)"
    by (simp add: mam)
  from format_dispatch [of "''application/octet-stream''" env0 s0 data0 "''data.bin''"] bin len
  have 6: "extract_text env0 s0 data0 ''data.bin'' ''application/octet-stream''
       = (Returned (unsupported_format_failure ''data.bin'' ''application/octet-stream'' 4), s0)"
    by simp
  from img 1 2 3 4 5 6 show ?thesis
    by blast
qed

text \<open>
  C2 as stated fails on an upper-case extension. The download named \<^verbatim>\<open>A.PDF\<close> and
  declared \<^verbatim>\<open>application/octet-stream\<close> meets none of the claim's tests as written (the
  identifier does not end in \<^verbatim>\<open>.pdf\<close>), so the claim gives the unsupported-format
  failure; the code compares the identifier in lower case and extracts it as a PDF.
\<close>

theorem upper_case_extension_counterexample:
  "identifier_of (Some ''A.PDF'') args0 = ''A.PDF''
   \<and> mimeType_of data0 (Some ''A.PDF'') ''A.PDF'' = ''application/octet-stream''
   \<and> \<not> startsWith ''application/octet-stream'' ''image/''
   \<and> \<not> startsWith ''application/octet-stream'' ''text/''
   \<and> \<not> includes_str ''application/octet-stream'' ''plain''
   \<and> ''application/octet-stream'' \<noteq> ''application/pdf''
   \<and> \<not> includes_str ''application/octet-stream'' ''pdf''
   \<and> \<not> endsWith ''A.PDF'' ''.pdf''
   \<and> \<not> includes_str ''application/octet-stream'' ''word''
   \<and> \<not> includes_str ''application/octet-stream'' ''officedocument''
   \<and> extract_text env0 s0 data0 ''A.PDF'' ''application/octet-stream''
       = (FullText ''Notice to quit'', s0\<lparr>PDFParseClass := Some pdf0\<rparr>)
   \<and> extract_text env0 s0 data0 ''A.PDF'' ''application/octet-stream''
       \<noteq> (Returned (unsupported_format_failure ''A.PDF'' ''application/octet-stream'' 4), s0)"
proof -
  have i: "identifier_of (Some ''A.PDF'') args0 = ''A.PDF''"
    by (simp add: identifier_of_def or_default_def)
  have m: "mimeType_of data0 (Some ''A.PDF'') ''A.PDF'' = ''application/octet-stream''"
    by (simp add: mimeType_of_def or_default_def or_else_def truthy_def data0_def)
  have u: "\<not> endsWith ''A.PDF'' ''.pdf''"
    by (simp add: endsWith_def)
  have l: "endsWith (toLowerCase ''A.PDF'') ''.pdf''"
    by (simp add: toLowerCase_def lower_unit_def endsWith_def)
  have x: "extract_text env0 s0 data0 ''A.PDF'' ''application/octet-stream''
       = (FullText ''Notice to quit'', s0\<lparr>PDFParseClass := Some pdf0\<rparr>)"
    by (simp add: extract_text_def startsWith_def l pdf_text_env0)
  from i m u x show ?thesis
    by (simp add: startsWith_def)
qed

section \<open>No state between calls\<close>

text \<open>
  C8. What \<^verbatim>\<open>get_document\<close> returns once the text \<open>T\<close> is extracted is
  \<open>access_modes identifier args T\<close>: a function of the text, the arguments (mode, index,
  query, budget) and the identifier alone. Two calls with the same text and arguments
  return the same payload, whatever the environment, the state of the module
  (\<^verbatim>\<open>PDFParseClass\<close>, which earlier calls may have set), the bytes and the MIME type
  they started from; and the access modes leave the state as extraction left it.
\<close>

theorem access_modes_stateless:
  assumes "extract_text e1 s1 d1 identifier m1 = (FullText T, s1')"
    and "extract_text e2 s2 d2 identifier m2 = (FullText T, s2')"
  shows "map_option fst (extract_and_serve e1 s1 args d1 identifier m1)
           = access_modes identifier args T
       \<and> map_option fst (extract_and_serve e2 s2 args d2 identifier m2)
           = access_modes identifier args T
       \<and> map_option snd (extract_and_serve e1 s1 args d1 identifier m1)
           = map_option (\<lambda>p. s1') (access_modes identifier args T)
       \<and> map_option snd (extract_and_serve e2 s2 args d2 identifier m2)
           = map_option (\<lambda>p. s2') (access_modes identifier args T)"
  using assms by (simp add: extract_and_serve_def split: option.split)

theorem access_modes_stateless_witness:
  "extract_text env0 s0 data0 ''A.PDF'' ''application/octet-stream''
     = (FullText ''Notice to quit'', s0\<lparr>PDFParseClass := Some pdf0\<rparr>)
   \<and> extract_text env0 (s0\<lparr>PDFParseClass := Some pdf0\<rparr>) data0 ''A.PDF'' ''application/pdf''
     = (FullText ''Notice to quit'', s0\<lparr>PDFParseClass := Some pdf0\<rparr>)
   \<and> map_option fst (extract_and_serve env0 s0 (args0\<lparr>args_max_chars := JNum 6\<rparr>) data0
                        ''A.PDF'' ''application/octet-stream'')
       = Some (preview_payload ''A.PDF'' 14 4 [''Notice'', '' to qu'', ''it''])
   \<and> map_option fst (extract_and_serve env0 (s0\<lparr>PDFParseClass := Some pdf0\<rparr>)
                        (args0\<lparr>args_max_chars := JNum 6\<rparr>) data0 ''A.PDF'' ''application/pdf'')
       = Some (preview_payload ''A.PDF'' 14 4 [''Notice'', '' to qu'', ''it''])"
proof -
  let ?a = "args0\<lparr>args_max_chars := JNum 6\<rparr>"
  let ?s1 = "s0\<lparr>PDFParseClass := Some pdf0\<rparr>"
  have l: "endsWith (toLowerCase ''A.PDF'') ''.pdf''"
    by (simp add: toLowerCase_def lower_unit_def endsWith_def)
  have x1: "extract_text env0 s0 data0 ''A.PDF'' ''application/octet-stream''
       = (FullText ''Notice to quit'', ?s1)"
    by (simp add: extract_text_def startsWith_def l pdf_text_env0)
  have x2: "extract_text env0 ?s1 data0 ''A.PDF'' ''application/pdf''
       = (FullText ''Notice to quit'', ?s1)"
    by (simp add: extract_text_def startsWith_def pdf_text_env0_cached)
  have t: "trim ''Notice to quit'' \<noteq> []"
    by (simp add: trim_def is_space_def)
  have m: "mode_of ?a = ''preview''"
    by (simp add: mode_of_def or_default_def args0_def)
  have B: "maxChars_of ?a = 6"
    by (simp add: maxChars_of_def args0_def)
  have c: "chunks_of ''Notice to quit'' 6 = [''Notice'', '' to qu'', ''it'']"
    using chunkText_chunks_of [of 6 "''Notice to quit''"]
    by (simp add: chunkText_def chunkText_loop.simps slice_def)
  have a: "access_modes ''A.PDF'' ?a ''Notice to quit''
             = Some (preview_payload ''A.PDF'' 14 4 [''Notice'', '' to qu'', ''it''])"
    by (simp add: access_modes_nonblank[OF t] m B c estimated_tokens_div preview_payload_def)
  from access_modes_stateless [OF x1 x2, of ?a] x1 x2 a show ?thesis
    by simp
qed

section \<open>Failure payloads and the catch-all\<close>

lemma field_no_text:
  "field (no_text_failure identifier m) ''success'' = JBool False"
  "field (no_text_failure identifier m) ''error''
     = JStr ''No text content could be extracted from this document.''"
  "field (no_text_failure identifier m) ''suggestion'' = JUndefined"
  "field (no_text_failure identifier m) ''mode'' = JStr m"
  by (simp_all add: field_def no_text_failure_def)

lemma field_caught:
  "field (payload (caught name err)) ''error'' = JBool True"
  "field (payload (caught name err)) ''tool'' = JStr name"
  "field (payload (caught name err)) ''message'' = JStr (message err)"
  "\<exists>t. field (payload (caught name err)) ''suggestion'' = JStr t"
  "isError (caught name err)"
  by (simp_all add: field_def caught_def)

lemma carries_suggestion:
  "carries_string (image_failure identifier mimeType n) ''error''"
  "carries_string (image_failure identifier mimeType n) ''suggestion''"
  "carries_string (unsupported_format_failure identifier mimeType n) ''error''"
  "carries_string (unsupported_format_failure identifier mimeType n) ''suggestion''"
  "carries_string (size_guard_failure identifier E) ''error''"
  "carries_string (size_guard_failure identifier E) ''suggestion''"
  "carries_string (extraction_failure identifier mimeType err) ''error''"
  "carries_string (extraction_failure identifier mimeType err) ''suggestion''"
  "carries_string (no_case_failure case_number) ''error''"
  "carries_string (no_case_failure case_number) ''suggestion''"
  "carries_string no_documents_failure ''error''"
  "carries_string no_documents_failure ''suggestion''"
  by (simp_all add: carries_string_def field_def image_failure_def
      unsupported_format_failure_def size_guard_failure_def extraction_failure_def
      no_case_failure_def no_documents_failure_def)

lemma carries_mode:
  "carries_string (no_text_failure identifier m) ''error''"
  "carries_string (no_text_failure identifier m) ''mode''"
  "carries_string (chunk_range_failure identifier idx n cs) ''error''"
  "carries_string (chunk_range_failure identifier idx n cs) ''mode''"
  "carries_string (query_required_failure identifier) ''error''"
  "carries_string (query_required_failure identifier) ''mode''"
  "carries_string (unsupported_mode_failure identifier m) ''error''"
  "carries_string (unsupported_mode_failure identifier m) ''mode''"
  by (simp_all add: carries_string_def field_def no_text_failure_def chunk_range_failure_def
      query_required_failure_def unsupported_mode_failure_def)

lemma success_payloads:
  "field (preview_payload identifier n E cs) ''success'' \<noteq> JBool False"
  "field (chunk_payload identifier n E cs idx) ''success'' \<noteq> JBool False"
  "field (search_payload identifier q n E ms) ''success'' \<noteq> JBool False"
  "field (full_payload identifier n E B T) ''success'' \<noteq> JBool False"
  "field ((''success'', JBool True) # properties) ''success'' \<noteq> JBool False"
  by (simp_all add: field_def preview_payload_def chunk_payload_def search_payload_def
      full_payload_def)

lemma access_modes_failure_shape:
  assumes "access_modes identifier args T = Some p" and "field p ''success'' = JBool False"
  shows "carries_string p ''error''
         \<and> (carries_string p ''suggestion'' \<or> carries_string p ''mode'')"
proof (cases "trim T = []")
  case True
  with assms(1) have "p = no_text_failure identifier (mode_of args)"
    by (simp add: access_modes_def Let_def)
  then show ?thesis
    by (simp add: carries_mode)
next
  case False
  from assms(1) have p: "p = (if mode_of args = ''full'' \<and> estimated_tokens (length T) > MAX_FULL_TOKENS
           then size_guard_failure identifier (estimated_tokens (length T))
           else if mode_of args = ''preview''
           then preview_payload identifier (length T) (estimated_tokens (length T))
                  (chunks_of T (maxChars_of args))
           else if mode_of args = ''chunk''
           then chunk_mode identifier args (length T) (estimated_tokens (length T))
                  (chunks_of T (maxChars_of args))
           else if mode_of args = ''search''
           then search_mode identifier args T (length T)
                  (estimated_tokens (length T)) (maxChars_of args)
           else if mode_of args = ''full''
           then full_payload identifier (length T) (estimated_tokens (length T))
                  (maxChars_of args) T
           else unsupported_mode_failure identifier (mode_of args))"
    by (simp only: access_modes_nonblank[OF False] option.inject)
  from assms(2) show ?thesis
    unfolding p
    by (auto simp: carries_suggestion carries_mode success_payloads chunk_mode_def
        search_mode_def Let_def split: if_splits)
qed

lemma extract_text_returned:
  assumes "extract_text e s d identifier mimeType = (Returned p, s')"
  shows "p = image_failure identifier mimeType (length (data_content d))
         \<or> p = unsupported_format_failure identifier mimeType (length (data_content d))"
  using assms by (simp add: extract_text_def split: if_splits prod.splits sum.splits)

lemma extract_and_serve_failure_shape:
  assumes "extract_and_serve e s args d identifier mimeType = Some (p, s')"
    and "field p ''success'' = JBool False"
  shows "carries_string p ''error''
         \<and> (carries_string p ''suggestion'' \<or> carries_string p ''mode'')"
proof (cases "extract_text e s d identifier mimeType")
  case (Pair x s'')
  show ?thesis
  proof (cases x)
    case (Returned p')
    with Pair assms(1) have "p = p'"
      by (simp add: extract_and_serve_def)
    with extract_text_returned Pair Returned
    have "p = image_failure identifier mimeType (length (data_content d))
         \<or> p = unsupported_format_failure identifier mimeType (length (data_content d))"
      by simp
    then show ?thesis
      by (auto simp: carries_suggestion)
  next
    case (Thrown err)
    with Pair assms(1) have "p = extraction_failure identifier mimeType err"
      by (simp add: extract_and_serve_def)
    then show ?thesis
      by (simp add: carries_suggestion)
  next
    case (FullText T)
    with Pair assms(1) have "access_modes identifier args T = Some p"
      by (simp add: extract_and_serve_def split: option.splits)
    then show ?thesis
      using assms(2) by (rule access_modes_failure_shape)
  qed
qed

lemma get_document_failure_shape:
  assumes "get_document e s args = Some (Inr r, s')" and "field (payload r) ''success'' = JBool False"
  shows "carries_string (payload r) ''error''
         \<and> (carries_string (payload r) ''suggestion'' \<or> carries_string (payload r) ''mode'')
         \<and> \<not> isError r"
proof -
  from assms(1) obtain d filename p where
    x: "extract_and_serve e s args d (identifier_of filename args)
       (mimeType_of d filename (identifier_of filename args)) = Some (p, s')"
    and r: "r = ok_result p"
    by (auto simp: get_document_def Let_def split: if_splits sum.splits option.splits)
  from r assms(2) have f: "field p ''success'' = JBool False"
    by (simp add: ok_result_def)
  from x f have "carries_string p ''error''
         \<and> (carries_string p ''suggestion'' \<or> carries_string p ''mode'')"
    by (rule extract_and_serve_failure_shape)
  with r show ?thesis
    by (simp add: ok_result_def)
qed

lemma pass_through_failure_shape:
  assumes "search_case_by_number e args = Inr r \<or> get_case_info e args = Inr r
           \<or> list_case_documents e args = Inr r"
    and "field (payload r) ''success'' = JBool False"
  shows "carries_string (payload r) ''error'' \<and> carries_string (payload r) ''suggestion''
         \<and> \<not> isError r"
  using assms
  by (auto simp: search_case_by_number_def get_case_info_def list_case_documents_def
      ok_result_def carries_suggestion success_payloads
      split: if_splits sum.splits option.splits)

lemma tool_body_failure_shape:
  assumes "tool_body e s name args = Some (Inr r, s')" and "field (payload r) ''success'' = JBool False"
  shows "carries_string (payload r) ''error''
         \<and> (carries_string (payload r) ''suggestion'' \<or> carries_string (payload r) ''mode'')
         \<and> \<not> isError r"
proof (cases "name = ''get_document''")
  case True
  with assms(1) have "get_document e s args = Some (Inr r, s')"
    by (simp add: tool_body_def)
  then show ?thesis
    using assms(2) by (rule get_document_failure_shape)
next
  case False
  with assms(1) have "search_case_by_number e args = Inr r \<or> get_case_info e args = Inr r
           \<or> list_case_documents e args = Inr r"
    by (auto simp: tool_body_def split: if_splits)
  from pass_through_failure_shape[OF this assms(2)] show ?thesis
    by simp
qed

text \<open>
  C7, amended in the fields of a failure. Every failure payload that a tool returns
  carries \<open>success: false\<close> and a string \<open>error\<close>, without \<open>isError\<close>, and carries a
  string \<open>suggestion\<close> or else the \<open>mode\<close> of the \<^verbatim>\<open>get_document\<close> call; the failures
  of \<^verbatim>\<open>search_case_by_number\<close> and \<^verbatim>\<open>list_case_documents\<close>, and those of
  \<^verbatim>\<open>get_document\<close> for an image, an unsupported format, a text too large for mode
  \<open>full\<close> and a failed extraction, carry a \<open>suggestion\<close>. Every exception that leaves a
  tool body is returned by the handler as \<open>{error: true, tool, message, suggestion}\<close>
  with \<open>isError: true\<close>; whenever the tool body ends, the handler returns a result.
\<close>

theorem failures_and_catch_all:
  "(tool_body e s name args = Some (Inr r, s') \<and> field (payload r) ''success'' = JBool False \<longrightarrow>
      carries_string (payload r) ''error''
      \<and> (carries_string (payload r) ''suggestion'' \<or> carries_string (payload r) ''mode'')
      \<and> \<not> isError r)
   \<and> carries_string (no_case_failure case_number) ''suggestion''
   \<and> carries_string no_documents_failure ''suggestion''
   \<and> carries_string (image_failure identifier mimeType n) ''suggestion''
   \<and> carries_string (unsupported_format_failure identifier mimeType n) ''suggestion''
   \<and> carries_string (size_guard_failure identifier E) ''suggestion''
   \<and> carries_string (extraction_failure identifier mimeType err) ''suggestion''
   \<and> (tool_body e s name args = Some (Inl error, s') \<longrightarrow>
        call_tool e s name args = Some (caught name error, s')
        \<and> field (payload (caught name error)) ''error'' = JBool True
        \<and> field (payload (caught name error)) ''tool'' = JStr name
        \<and> field (payload (caught name error)) ''message'' = JStr (message error)
        \<and> carries_string (payload (caught name error)) ''suggestion''
        \<and> isError (caught name error))
   \<and> (tool_body e s name args = Some (Inr r, s') \<longrightarrow> call_tool e s name args = Some (r, s'))
   \<and> (tool_body e s name args \<noteq> None \<longrightarrow> (\<exists>result s''. call_tool e s name args = Some (result, s'')))"
proof (intro conjI impI)
  assume a: "tool_body e s name args = Some (Inr r, s') \<and> field (payload r) ''success'' = JBool False"
  then have "carries_string (payload r) ''error''
      \<and> (carries_string (payload r) ''suggestion'' \<or> carries_string (payload r) ''mode'')
      \<and> \<not> isError r"
    using tool_body_failure_shape by blast
  then show "carries_string (payload r) ''error''"
    and "carries_string (payload r) ''suggestion'' \<or> carries_string (payload r) ''mode''"
    and "\<not> isError r"
    by simp_all
next
  show "carries_string (no_case_failure case_number) ''suggestion''"
    "carries_string no_documents_failure ''suggestion''"
    "carries_string (image_failure identifier mimeType n) ''suggestion''"
    "carries_string (unsupported_format_failure identifier mimeType n) ''suggestion''"
    "carries_string (size_guard_failure identifier E) ''suggestion''"
    "carries_string (extraction_failure identifier mimeType err) ''suggestion''"
    by (rule carries_suggestion)+
next
  assume b: "tool_body e s name args = Some (Inl error, s')"
  then show "call_tool e s name args = Some (caught name error, s')"
    by (simp add: call_tool_def)
  show "field (payload (caught name error)) ''error'' = JBool True"
    "field (payload (caught name error)) ''tool'' = JStr name"
    "field (payload (caught name error)) ''message'' = JStr (message error)"
    "isError (caught name error)"
    by (rule field_caught)+
  show "carries_string (payload (caught name error)) ''suggestion''"
    by (simp add: carries_string_def field_def caught_def)
next
  assume "tool_body e s name args = Some (Inr r, s')"
  then show "call_tool e s name args = Some (r, s')"
    by (simp add: call_tool_def)
next
  assume "tool_body e s name args \<noteq> None"
  then show "\<exists>result s''. call_tool e s name args = Some (result, s'')"
    by (auto simp: call_tool_def split: option.splits sum.splits)
qed

theorem failures_and_catch_all_witness:
  "tool_body env_scanned s0 ''get_document'' args0
     = Some (Inr (ok_result (no_text_failure ''A.PDF'' ''preview'')),
             s0\<lparr>PDFParseClass := Some scanned_pdf\<rparr>)
   \<and> field (payload (ok_result (no_text_failure ''A.PDF'' ''preview''))) ''success'' = JBool False
   \<and> carries_string (payload (ok_result (no_text_failure ''A.PDF'' ''preview''))) ''error''
   \<and> carries_string (payload (ok_result (no_text_failure ''A.PDF'' ''preview''))) ''mode''
   \<and> tool_body env0 s0 ''search_case_by_number'' (args0\<lparr>args_case_number := Some ''24-0539721''\<rparr>)
       = Some (Inr (ok_result (no_case_failure ''24-0539721'')), s0)
   \<and> carries_string (payload (ok_result (no_case_failure ''24-0539721''))) ''error''
   \<and> carries_string (payload (ok_result (no_case_failure ''24-0539721''))) ''suggestion''
   \<and> tool_body env0 s0 ''get_document'' (args0\<lparr>args_document_uuid := None\<rparr>)
       = Some (Inl (Error ''Either document_id or document_uuid is required''), s0)
   \<and> call_tool env0 s0 ''get_document'' (args0\<lparr>args_document_uuid := None\<rparr>)
       = Some (caught ''get_document'' (Error ''Either document_id or document_uuid is required''), s0)
   \<and> tool_body env0 s0 ''delete_case'' args0 = Some (Inl (Error ''Unknown tool: delete_case''), s0)
   \<and> call_tool env0 s0 ''delete_case'' args0
       = Some (caught ''delete_case'' (Error ''Unknown tool: delete_case''), s0)
   \<and> tool_body env0 s0 ''get_case_info'' (args0\<lparr>args_case_uuid := Some ''c-1''\<rparr>)
       = Some (Inl (Error ''LegalServer API error: 404 Not Found''), s0)
   \<and> call_tool env0 s0 ''get_case_info'' (args0\<lparr>args_case_uuid := Some ''c-1''\<rparr>)
       = Some (caught ''get_case_info'' (Error ''LegalServer API error: 404 Not Found''), s0)"
proof -
  let ?r = "ok_result (no_text_failure ''A.PDF'' ''preview'')"
  let ?c = "ok_result (no_case_failure ''24-0539721'')"
  have g: "tool_body env_scanned s0 ''get_document'' args0
     = Some (Inr ?r, s0\<lparr>PDFParseClass := Some scanned_pdf\<rparr>)"
    by (simp add: tool_body_def get_document_scanned)
  have f: "field (payload ?r) ''success'' = JBool False"
    by (simp add: ok_result_def field_no_text)
  have md: "carries_string (payload ?r) ''mode''"
    by (simp add: ok_result_def carries_mode)
  have n: "tool_body env0 s0 ''search_case_by_number'' (args0\<lparr>args_case_number := Some ''24-0539721''\<rparr>)
       = Some (Inr ?c, s0)"
    by (simp add: tool_body_def search_case_by_number_def truthy_def args0_def env0_def)
  have nf: "field (payload ?c) ''success'' = JBool False"
    by (simp add: ok_result_def field_def no_case_failure_def)
  have ns: "carries_string (payload ?c) ''suggestion''"
    by (simp add: ok_result_def carries_suggestion)
  have b1: "tool_body env0 s0 ''get_document'' (args0\<lparr>args_document_uuid := None\<rparr>)
       = Some (Inl (Error ''Either document_id or document_uuid is required''), s0)"
    by (simp add: tool_body_def get_document_def truthy_def args0_def)
  have b2: "tool_body env0 s0 ''delete_case'' args0
       = Some (Inl (Error ''Unknown tool: delete_case''), s0)"
    by (simp add: tool_body_def)
  have b3: "tool_body env0 s0 ''get_case_info'' (args0\<lparr>args_case_uuid := Some ''c-1''\<rparr>)
       = Some (Inl (Error ''LegalServer API error: 404 Not Found''), s0)"
    by (simp add: tool_body_def get_case_info_def truthy_def args0_def env0_def)
  from failures_and_catch_all [where e = env_scanned and s = s0 and name = "''get_document''"
      and args = args0 and r = ?r and s' = "s0\<lparr>PDFParseClass := Some scanned_pdf\<rparr>"] g f
  have 1: "carries_string (payload ?r) ''error''"
    by blast
  from failures_and_catch_all [where e = env0 and s = s0 and name = "''search_case_by_number''"
      and args = "args0\<lparr>args_case_number := Some ''24-0539721''\<rparr>" and r = ?c and s' = s0] n nf
  have 2: "carries_string (payload ?c) ''error''"
    by blast
  from failures_and_catch_all [where e = env0 and s = s0 and s' = s0 and name = "''get_document''"
      and args = "args0\<lparr>args_document_uuid := None\<rparr>"
      and error = "Error ''Either document_id or document_uuid is required''"] b1
  have 3: "call_tool env0 s0 ''get_document'' (args0\<lparr>args_document_uuid := None\<rparr>)
       = Some (caught ''get_document'' (Error ''Either document_id or document_uuid is required''), s0)"
    by blast
  from failures_and_catch_all [where e = env0 and s = s0 and s' = s0 and name = "''delete_case''"
      and args = args0
      and error = "Error ''Unknown tool: delete_case''"] b2
  have 4: "call_tool env0 s0 ''delete_case'' args0
       = Some (caught ''delete_case'' (Error ''Unknown tool: delete_case''), s0)"
    by blast
  from failures_and_catch_all [where e = env0 and s = s0 and s' = s0 and name = "''get_case_info''"
      and args = "args0\<lparr>args_case_uuid := Some ''c-1''\<rparr>"
      and error = "Error ''LegalServer API error: 404 Not Found''"] b3
  have 5: "call_tool env0 s0 ''get_case_info'' (args0\<lparr>args_case_uuid := Some ''c-1''\<rparr>)
       = Some (caught ''get_case_info'' (Error ''LegalServer API error: 404 Not Found''), s0)"
    by blast
  from g f 1 md n 2 ns b1 3 b2 4 b3 5 show ?thesis
    by blast
qed

text \<open>
  C7 as stated fails on two failures of \<^verbatim>\<open>get_document\<close>: the one for a document
  without text and the one for a chunk index out of range carry \<open>success: false\<close> and
  \<open>error\<close>, and no \<open>suggestion\<close>.
\<close>

theorem failure_without_suggestion_counterexample:
  "call_tool env_scanned s0 ''get_document'' args0
     = Some (ok_result (no_text_failure ''A.PDF'' ''preview''),
             s0\<lparr>PDFParseClass := Some scanned_pdf\<rparr>)
   \<and> field (payload (ok_result (no_text_failure ''A.PDF'' ''preview''))) ''success'' = JBool False
   \<and> field (payload (ok_result (no_text_failure ''A.PDF'' ''preview''))) ''suggestion'' = JUndefined
   \<and> access_modes ''A.PDF''
        (args0\<lparr>args_mode := Some ''chunk'', args_chunk_index := JNum 5\<rparr>) ''Notice to quit''
       = Some (chunk_range_failure ''A.PDF'' 5 14 [''Notice to quit''])
   \<and> field (chunk_range_failure ''A.PDF'' 5 14 [''Notice to quit'']) ''success'' = JBool False
   \<and> field (chunk_range_failure ''A.PDF'' 5 14 [''Notice to quit'']) ''suggestion'' = JUndefined"
proof -
  let ?a = "args0\<lparr>args_mode := Some ''chunk'', args_chunk_index := JNum 5\<rparr>"
  have c: "call_tool env_scanned s0 ''get_document'' args0
     = Some (ok_result (no_text_failure ''A.PDF'' ''preview''),
             s0\<lparr>PDFParseClass := Some scanned_pdf\<rparr>)"
    by (simp add: call_tool_def tool_body_def get_document_scanned)
  have t: "trim ''Notice to quit'' \<noteq> []"
    by (simp add: trim_def is_space_def)
  have m: "mode_of ?a = ''chunk''"
    by (simp add: mode_of_def or_default_def args0_def)
  have B: "maxChars_of ?a = 8000"
    by (simp add: maxChars_of_def args0_def)
  have i: "idx_of ?a = 5"
    by (simp add: idx_of_def args0_def)
  have ch: "chunks_of ''Notice to quit'' 8000 = [''Notice to quit'']"
    using chunkText_chunks_of [of 8000 "''Notice to quit''"]
    by (simp add: chunkText_def chunkText_loop.simps slice_def)
  have a: "access_modes ''A.PDF'' ?a ''Notice to quit''
       = Some (chunk_range_failure ''A.PDF'' 5 14 [''Notice to quit''])"
    by (simp add: access_modes_nonblank[OF t] m B i ch chunk_mode_def chunk_range_failure_def)
  from c a show ?thesis
    by (simp add: ok_result_def field_no_text field_chunk_range_failure)
       (simp add: field_def chunk_range_failure_def)
qed


end
